theory Spec2Isabelle
  imports Main "HOL-Library.Sublist" "HOL-Library.Word"
begin

section \<open>Data model of the spread-sheet query layer\<close>

text \<open>
  The development follows \<^verbatim>\<open>src/server/utils/spread-sheet-query/index2.ts\<close>, the variant
  with an ordered list of typed columns, annotated headers and \<^verbatim>\<open>commit\<close>, and, for the
  column index resolver, \<^verbatim>\<open>src/server/utils/sheetQuery/index.ts\<close>.

  A JavaScript string is a sequence of UTF-16 code units. \<open>ascii\<close> gives the code
  units of a literal of ASCII characters.
\<close>

type_synonym js_string = "16 word list"

definition ascii :: "string \<Rightarrow> js_string" where
  "ascii s = map (\<lambda>c. of_nat (of_char c)) s"

text \<open>
  The names of the members every plain object inherits from \<^verbatim>\<open>Object.prototype\<close>: a
  property read \<^verbatim>\<open>obj[key]\<close> finds them when the object has no property of its own
  under the key.
\<close>

definition Object_prototype :: "js_string list" where
  "Object_prototype =
     map ascii
       [''constructor'', ''__defineGetter__'', ''__defineSetter__'', ''hasOwnProperty'',
        ''__lookupGetter__'', ''__lookupSetter__'', ''isPrototypeOf'', ''propertyIsEnumerable'',
        ''toString'', ''valueOf'', ''__proto__'', ''toLocaleString'']"

text \<open>
  A cell of a sheet is \<^verbatim>\<open>boolean | number | string | Date\<close>. JavaScript numbers and
  dates are carried through the layer without arithmetic, so they are represented by
  integers. \<open>VUndefined\<close> is JavaScript's \<^verbatim>\<open>undefined\<close>, the result of reading an array
  beyond its length or an object at a key it does not have. \<open>VInherited k\<close> is the
  member of \<^verbatim>\<open>Object.prototype\<close> named \<open>k\<close>, the result of reading an object at such a
  name when it has no property of its own there.
\<close>

datatype sheet_value =
    VBool bool
  | VNum int
  | VStr js_string
  | VDate int
  | VUndefined
  | VInherited js_string

text \<open>\<^verbatim>\<open>TypeName\<close>: the \<^verbatim>\<open>typeof\<close> names enumerated by \<^verbatim>\<open>ToTypeName\<close>/\<^verbatim>\<open>ToActualType\<close>.\<close>

datatype type_name =
  TString | TNumber | TBoolean | TUndefined | TSymbol | TObject | TBigint

text \<open>The string a \<^verbatim>\<open>TypeName\<close> is at run time.\<close>

fun type_name_str :: "type_name \<Rightarrow> js_string" where
  "type_name_str TString = ascii ''string''"
| "type_name_str TNumber = ascii ''number''"
| "type_name_str TBoolean = ascii ''boolean''"
| "type_name_str TUndefined = ascii ''undefined''"
| "type_name_str TSymbol = ascii ''symbol''"
| "type_name_str TObject = ascii ''object''"
| "type_name_str TBigint = ascii ''bigint''"

text \<open>\<^verbatim>\<open>ColumnType = { name, type }\<close>; a schema (\<^verbatim>\<open>ColumnTypes\<close>) is an ordered list of them.\<close>

record column_type =
  name :: js_string
  ctype :: type_name

text \<open>
  A \<^verbatim>\<open>SheetRecord\<close> is a JavaScript object keyed by column name: a finite map. A key may
  be present with the value \<^verbatim>\<open>undefined\<close> (\<open>Some VUndefined\<close>), which differs from an
  absent key (\<open>None\<close>).
\<close>

type_synonym sheet_record = "js_string \<rightharpoonup> sheet_value"

type_synonym data_table = "sheet_value list list"

section \<open>Record codec\<close>

text \<open>\<^verbatim>\<open>row[index]\<close>: an array read, \<^verbatim>\<open>undefined\<close> out of range.\<close>

definition cell :: "sheet_value list \<Rightarrow> nat \<Rightarrow> sheet_value" where
  "cell row i = (if i < length row then row ! i else VUndefined)"

text \<open>
  \<^verbatim>\<open>record[name]\<close>: a property read on a plain object. It returns the object's own
  property, else the member inherited from \<^verbatim>\<open>Object.prototype\<close>, else \<^verbatim>\<open>undefined\<close>.
\<close>

definition get_prop :: "sheet_record \<Rightarrow> js_string \<Rightarrow> sheet_value" where
  "get_prop r k =
     (case r k of
        Some v \<Rightarrow> v
      | None \<Rightarrow> if k \<in> set Object_prototype then VInherited k else VUndefined)"

text \<open>
  \<^verbatim>\<open>columnTypes.reduce((acc, { name }, index) => ({ ...acc, [name]: row[index] }), {})\<close>,
  with the running index and the accumulator explicit.
\<close>

fun reduce_columns ::
  "column_type list \<Rightarrow> nat \<Rightarrow> sheet_value list \<Rightarrow> sheet_record \<Rightarrow> sheet_record" where
  "reduce_columns [] index row acc = acc"
| "reduce_columns (c # cs) index row acc =
     reduce_columns cs (Suc index) row (acc(name c \<mapsto> cell row index))"

text \<open>Decode, the initialiser of \<^verbatim>\<open>__records\<close> in \<^verbatim>\<open>createSheetQuery\<close>.\<close>

definition decode :: "column_type list \<Rightarrow> data_table \<Rightarrow> sheet_record list" where
  "decode columnTypes vals = map (\<lambda>row. reduce_columns columnTypes 0 row Map.empty) vals"

text \<open>
  Encode, the local \<^verbatim>\<open>values\<close> of \<^verbatim>\<open>commit\<close>:
  \<^verbatim>\<open>__records.map((record) => columnTypes.map(({ name }) => record[name]))\<close>.
\<close>

definition encode :: "column_type list \<Rightarrow> sheet_record list \<Rightarrow> data_table" where
  "encode columnTypes records = map (\<lambda>r. map (\<lambda>c. get_prop r (name c)) columnTypes) records"

section \<open>Thrown values and results\<close>

text \<open>
  Every \<^verbatim>\<open>throw new Error(...)\<close> of the source is one constructor, with the values its
  message template interpolates:
  \<^item> \<open>HeaderNotString v\<close>: \<^verbatim>\<open>Header does not type of string. (${rawHeader})\<close>;
  \<^item> \<open>HeaderNotProperlyDefined s\<close>: \<^verbatim>\<open>Header does not properly defined. (${rawHeader})\<close>;
  \<^item> \<open>UnknownHeaders s\<close>: \<^verbatim>\<open>Unknown headers are defined. (${rawHeader})\<close>;
  \<^item> \<open>NoSheetOfId i\<close>: \<^verbatim>\<open>There's no sheet of id ${id}\<close>;
  \<^item> \<open>UnknownColumnName h\<close>: \<^verbatim>\<open>Unknown column name: "${h}"\<close>;
  \<^item> \<open>TypeError m\<close>: the run-time \<^verbatim>\<open>TypeError\<close> of reading a property of \<^verbatim>\<open>undefined\<close>;
  \<^item> \<open>PlatformException m\<close>: an exception of the hosting platform (lock, ranges);
  \<^item> \<open>PlainError m\<close>: any other \<^verbatim>\<open>Error\<close> object with message \<open>m\<close>.

  The texts of \<open>TypeError\<close> and \<open>PlatformException\<close> are labels; the other
  constructors carry JavaScript values.
\<close>

datatype js_error =
    HeaderNotString sheet_value
  | HeaderNotProperlyDefined js_string
  | UnknownHeaders js_string
  | NoSheetOfId int
  | UnknownColumnName js_string
  | TypeError string
  | PlatformException string
  | PlainError js_string

text \<open>
  JavaScript can throw any value. \<open>ThrownError e\<close> is a thrown \<^verbatim>\<open>Error\<close> object.
  \<open>ThrownOther s\<close> is a thrown value that is not an \<^verbatim>\<open>Error\<close> and that the template
  literal \<^verbatim>\<open>`${error}`\<close> renders as \<open>s\<close>. \<open>ThrownUnrenderable t\<close> is a thrown value that
  is not an \<^verbatim>\<open>Error\<close> and whose rendering throws \<open>t\<close>: a \<^verbatim>\<open>TypeError\<close> for a
  \<^verbatim>\<open>Symbol\<close> and for an object without prototype, whatever its \<^verbatim>\<open>toString\<close> throws for
  another object.
\<close>

datatype thrown = ThrownError js_error | ThrownOther js_string | ThrownUnrenderable thrown

text \<open>\<^verbatim>\<open>src/server/utils/result.ts\<close>: \<^verbatim>\<open>Success\<close> and \<^verbatim>\<open>Failure\<close>, built by \<^verbatim>\<open>Ok\<close> and \<^verbatim>\<open>Err\<close>.\<close>

datatype ('t, 'e) result = Ok 't | Err 'e

fun isOk :: "('t, 'e) result \<Rightarrow> bool" where
  "isOk (Ok _) = True"
| "isOk (Err _) = False"

fun isErr :: "('t, 'e) result \<Rightarrow> bool" where
  "isErr (Ok _) = False"
| "isErr (Err _) = True"

text \<open>
  A computation that may throw and that changes a state: it returns the thrown value
  (\<open>Inl\<close>) or its result (\<open>Inr\<close>), and the state it leaves.
\<close>

type_synonym ('s, 'a) js = "'s \<Rightarrow> (thrown + 'a) \<times> 's"

text \<open>
  \<^verbatim>\<open>try { body } catch (error) { handler } finally { finalizer }\<close> where \<open>body\<close> and
  \<open>handler\<close> end in a \<^verbatim>\<open>return\<close>: the finalizer always runs, after the handler when the
  body threw; a throw of the handler or of the finalizer leaves the statement.
\<close>

definition try_catch_finally ::
  "('s, 'a) js \<Rightarrow> (thrown \<Rightarrow> ('s, 'a) js) \<Rightarrow> ('s, unit) js \<Rightarrow> ('s, 'a) js" where
  "try_catch_finally body handler finalizer s =
     (let (r1, s1) = body s;
          (r2, s2) = (case r1 of Inl e \<Rightarrow> handler e s1 | Inr v \<Rightarrow> (Inr v, s1));
          (r3, s3) = finalizer s2
      in case r3 of Inl e \<Rightarrow> (Inl e, s3) | Inr _ \<Rightarrow> (r2, s3))"

section \<open>Header validator\<close>

text \<open>
  A regular expression without the \<^verbatim>\<open>u\<close> flag matches code units. \<open>is_space\<close> is the
  class \<^verbatim>\<open>\s\<close>: the white space and line terminator code points of the language, all of
  one code unit (U+0009 to U+000D, U+0020, U+00A0, U+1680, U+2000 to U+200A, U+2028,
  U+2029, U+202F, U+205F, U+3000, U+FEFF). \<open>not_lt\<close> is the class \<^verbatim>\<open>[^<]\<close>.
\<close>

definition is_space :: "16 word \<Rightarrow> bool" where
  "is_space c \<longleftrightarrow>
     (0x0009 \<le> c \<and> c \<le> 0x000D) \<or> c = 0x0020 \<or> c = 0x00A0 \<or> c = 0x1680 \<or>
     (0x2000 \<le> c \<and> c \<le> 0x200A) \<or> c = 0x2028 \<or> c = 0x2029 \<or> c = 0x202F \<or>
     c = 0x205F \<or> c = 0x3000 \<or> c = 0xFEFF"

definition not_lt :: "16 word \<Rightarrow> bool" where
  "not_lt c \<longleftrightarrow> c \<noteq> 0x003C"

text \<open>
  A backtracking matcher returns the ways a pattern matches a prefix of its input, in the
  order the regular expression engine tries them; each is the matched text and the rest
  of the input.

  \<open>greedy p m\<close> is a greedy quantifier over a character class with at least \<open>m\<close>
  repetitions (\<^verbatim>\<open>\s*\<close>, \<^verbatim>\<open>\s+\<close>, \<^verbatim>\<open>[^<]+\<close>): the longest run first, then shorter ones.
\<close>

definition greedy ::
  "(16 word \<Rightarrow> bool) \<Rightarrow> nat \<Rightarrow> js_string \<Rightarrow> (js_string \<times> js_string) list" where
  "greedy p m s =
     map (\<lambda>n. (take n s, drop n s)) (rev [m ..< Suc (length (takeWhile p s))])"

text \<open>A literal.\<close>

definition lit :: "js_string \<Rightarrow> js_string \<Rightarrow> (js_string \<times> js_string) list" where
  "lit l s = (if take (length l) s = l then [(l, drop (length l) s)] else [])"

text \<open>An alternation of literals, the alternatives tried from left to right.\<close>

definition alternatives ::
  "js_string list \<Rightarrow> js_string \<Rightarrow> (js_string \<times> js_string) list" where
  "alternatives ls s = concat (map (\<lambda>l. lit l s) ls)"

text \<open>
  \<^verbatim>\<open>HEADER_REGEX = /^\s*(?:([^<]+)\s+<(string|number|boolean|Date)>)\s*$/\<close> and its
  \<^verbatim>\<open>exec\<close>: the first successful way to match the whole input, of which the two
  capture groups are returned; \<open>None\<close> is the \<^verbatim>\<open>null\<close> of a failed match.
\<close>

definition HEADER_REGEX_matches :: "js_string \<Rightarrow> (js_string \<times> js_string) list" where
  "HEADER_REGEX_matches s =
     [(g1, g2).
        (ws0, r1) \<leftarrow> greedy is_space 0 s,
        (g1, r2) \<leftarrow> greedy not_lt 1 r1,
        (ws1, r3) \<leftarrow> greedy is_space 1 r2,
        (l1, r4) \<leftarrow> lit (ascii ''<'') r3,
        (g2, r5) \<leftarrow> alternatives (map ascii [''string'', ''number'', ''boolean'', ''Date'']) r4,
        (l2, r6) \<leftarrow> lit (ascii ''>'') r5,
        (ws2, r7) \<leftarrow> greedy is_space 0 r6,
        r7 = []]"

definition HEADER_REGEX_exec :: "js_string \<Rightarrow> (js_string \<times> js_string) option" where
  "HEADER_REGEX_exec s = (case HEADER_REGEX_matches s of [] \<Rightarrow> None | m # _ \<Rightarrow> Some m)"

text \<open>The body of the \<^verbatim>\<open>forEach\<close> callback of \<^verbatim>\<open>validateColumnTypes\<close>, for one header cell.\<close>

definition validate_header :: "sheet_value \<Rightarrow> column_type list \<Rightarrow> thrown + unit" where
  "validate_header rawHeader columnTypes =
     (case rawHeader of
        VStr s \<Rightarrow>
          (case HEADER_REGEX_exec s of
             None \<Rightarrow> Inl (ThrownError (HeaderNotProperlyDefined s))
           | Some (header, derivedTypeName) \<Rightarrow>
               (case find (\<lambda>t. type_name_str (ctype t) = derivedTypeName \<and> name t = header)
                       columnTypes of
                  None \<Rightarrow> Inl (ThrownError (UnknownHeaders s))
                | Some _ \<Rightarrow> Inr ()))
      | _ \<Rightarrow> Inl (ThrownError (HeaderNotString rawHeader)))"

text \<open>\<^verbatim>\<open>headers.forEach(...)\<close>: the cells from left to right, stopping at the first throw.\<close>

fun validate_headers :: "sheet_value list \<Rightarrow> column_type list \<Rightarrow> thrown + unit" where
  "validate_headers [] columnTypes = Inr ()"
| "validate_headers (rawHeader # rest) columnTypes =
     (case validate_header rawHeader columnTypes of
        Inl e \<Rightarrow> Inl e
      | Inr _ \<Rightarrow> validate_headers rest columnTypes)"

text \<open>
  \<^verbatim>\<open>validateColumnTypes\<close>. \<^verbatim>\<open>sheetValues.slice(0, 1)[0]\<close> is \<^verbatim>\<open>undefined\<close> for a table
  without rows, and calling \<^verbatim>\<open>forEach\<close> on it is a \<^verbatim>\<open>TypeError\<close>.
\<close>

definition validateColumnTypes :: "data_table \<Rightarrow> column_type list \<Rightarrow> thrown + unit" where
  "validateColumnTypes sheetValues columnTypes =
     (case sheetValues of
        [] \<Rightarrow> Inl (ThrownError (TypeError ''Cannot read properties of undefined (reading forEach)''))
      | headers # _ \<Rightarrow> validate_headers headers columnTypes)"

section \<open>Backing store\<close>

text \<open>
  A sheet of the spreadsheet: its identifier (\<^verbatim>\<open>getSheetId()\<close>) and the grid of its data
  range (\<^verbatim>\<open>getDataRange().getValues()\<close>), the header row first.
\<close>

record sheet =
  sheet_id :: int
  sheet_values :: data_table

text \<open>
  The platform's \<^verbatim>\<open>Range.setValues\<close>, on the grid: \<open>put_cells c new old\<close> overwrites the
  cells of the row \<open>old\<close> from column offset \<open>c\<close> with \<open>new\<close>, and \<open>write_rows r c vs g\<close>
  writes the rows \<open>vs\<close> from row offset \<open>r\<close> on. Cells and rows that did not exist are
  created; an empty cell reads as the empty string.
\<close>

definition put_cells :: "nat \<Rightarrow> sheet_value list \<Rightarrow> sheet_value list \<Rightarrow> sheet_value list" where
  "put_cells c new old =
     (let padded = old @ replicate (c + length new - length old) (VStr [])
      in take c padded @ new @ drop (c + length new) padded)"

fun write_rows :: "nat \<Rightarrow> nat \<Rightarrow> data_table \<Rightarrow> data_table \<Rightarrow> data_table" where
  "write_rows r c [] grid = grid"
| "write_rows r c (v # vs) grid =
     (let padded = grid @ replicate (Suc r - length grid) []
      in write_rows (Suc r) c vs (padded[r := put_cells c v (padded ! r)]))"

text \<open>
  \<^verbatim>\<open>sheet.getRange(row, column, numRows, numColumns)\<close>, with 1-based \<open>row\<close> and
  \<open>column\<close>. The platform refuses a range without rows or without columns.
\<close>

record sheet_range =
  range_row :: nat
  range_column :: nat
  range_numRows :: nat
  range_numColumns :: nat

definition getRange :: "nat \<Rightarrow> nat \<Rightarrow> nat \<Rightarrow> nat \<Rightarrow> thrown + sheet_range" where
  "getRange row column numRows numColumns =
     (if numRows < 1 then
        Inl (ThrownError (PlatformException ''The number of rows in the range must be at least 1.''))
      else if numColumns < 1 then
        Inl (ThrownError (PlatformException ''The number of columns in the range must be at least 1.''))
      else Inr \<lparr>range_row = row, range_column = column,
                range_numRows = numRows, range_numColumns = numColumns\<rparr>)"

text \<open>
  \<^verbatim>\<open>range.setValues(values)\<close>, as a function on the grid of the sheet. In \<^verbatim>\<open>commit\<close> the
  values always have the dimensions of the range.
\<close>

definition setValues :: "sheet_range \<Rightarrow> data_table \<Rightarrow> data_table \<Rightarrow> data_table" where
  "setValues rng vals grid = write_rows (range_row rng - 1) (range_column rng - 1) vals grid"

text \<open>A write through a sheet handle reaches the sheet that \<^verbatim>\<open>find\<close> returned for its id.\<close>

fun update_sheet :: "int \<Rightarrow> (data_table \<Rightarrow> data_table) \<Rightarrow> sheet list \<Rightarrow> sheet list" where
  "update_sheet i f [] = []"
| "update_sheet i f (s # ss) =
     (if sheet_id s = i then s\<lparr>sheet_values := f (sheet_values s)\<rparr> # ss
      else s # update_sheet i f ss)"

section \<open>Table session\<close>

text \<open>\<^verbatim>\<open>SheetQueryConfig = { id, columnTypes }\<close>.\<close>

record sheet_query_config =
  config_id :: int
  config_columnTypes :: "column_type list"

text \<open>
  The closure \<^verbatim>\<open>createSheetQuery\<close> returns: the sheet it found (by its id), the schema and
  the variable \<^verbatim>\<open>__records\<close>, the working set.
\<close>

record sheet_query =
  sq_sheet :: int
  sq_columnTypes :: "column_type list"
  sq_records :: "sheet_record list"

text \<open>\<^verbatim>\<open>createSheetQuery\<close> up to the initialisation of \<^verbatim>\<open>__records\<close>.\<close>

definition createSheetQuery :: "sheet_query_config \<Rightarrow> sheet list \<Rightarrow> thrown + sheet_query" where
  "createSheetQuery config sheets =
     (case find (\<lambda>s. sheet_id s = config_id config) sheets of
        None \<Rightarrow> Inl (ThrownError (NoSheetOfId (config_id config)))
      | Some sheet \<Rightarrow>
          (let sheetValues = sheet_values sheet in
           case validateColumnTypes sheetValues (config_columnTypes config) of
             Inl e \<Rightarrow> Inl e
           | Inr _ \<Rightarrow>
               Inr \<lparr>sq_sheet = config_id config,
                    sq_columnTypes = config_columnTypes config,
                    sq_records = decode (config_columnTypes config) (drop 1 sheetValues)\<rparr>))"

text \<open>The methods \<^verbatim>\<open>read\<close>, \<^verbatim>\<open>set\<close>, \<^verbatim>\<open>append\<close> and \<^verbatim>\<open>deleteIf\<close>.\<close>

definition read :: "sheet_query \<Rightarrow> sheet_record list" where
  "read q = sq_records q"

definition set_records :: "sheet_record list \<Rightarrow> sheet_query \<Rightarrow> sheet_query" where
  "set_records records q = q\<lparr>sq_records := records\<rparr>"

definition append_records :: "sheet_record list \<Rightarrow> sheet_query \<Rightarrow> sheet_query" where
  "append_records records q = q\<lparr>sq_records := sq_records q @ records\<rparr>"

definition deleteIf :: "(sheet_record \<Rightarrow> bool) \<Rightarrow> sheet_query \<Rightarrow> sheet_query" where
  "deleteIf condition q = q\<lparr>sq_records := filter (\<lambda>r. \<not> condition r) (sq_records q)\<rparr>"

text \<open>
  \<^verbatim>\<open>commit\<close>, on the session and the store. The arguments of \<^verbatim>\<open>getRange\<close> are evaluated
  first: \<^verbatim>\<open>values[0]\<close> is \<^verbatim>\<open>undefined\<close> when there is no record, and reading its
  \<^verbatim>\<open>length\<close> is a \<^verbatim>\<open>TypeError\<close>.
\<close>

definition commit :: "(sheet_query \<times> sheet list, unit) js" where
  "commit = (\<lambda>(q, sheets).
     (let vals = encode (sq_columnTypes q) (sq_records q) in
      case vals of
        [] \<Rightarrow>
          (Inl (ThrownError (TypeError ''Cannot read properties of undefined (reading length)'')),
           (q, sheets))
      | row0 # _ \<Rightarrow>
          (case getRange 2 1 (length vals) (length row0) of
             Inl e \<Rightarrow> (Inl e, (q, sheets))
           | Inr rng \<Rightarrow> (Inr (), (q, update_sheet (sq_sheet q) (setValues rng vals) sheets)))))"

section \<open>Transaction runner\<close>

text \<open>
  The script lock of the platform. \<open>lock_busy_ms\<close> is the time for which another holder
  keeps the lock; \<^verbatim>\<open>waitLock(timeoutInMillis)\<close> acquires the lock when it becomes free
  within the timeout and throws otherwise. \<open>lock_releases\<close> counts the calls of
  \<^verbatim>\<open>releaseLock()\<close>.
\<close>

record lock_service =
  lock_busy_ms :: int
  lock_held :: bool
  lock_releases :: nat

record world =
  w_sheets :: "sheet list"
  w_lock :: lock_service

definition LockTimeout :: thrown where
  "LockTimeout =
     ThrownError (PlatformException ''Lock timeout: another process was holding the lock for too long.'')"

definition waitLock :: "int \<Rightarrow> (world, unit) js" where
  "waitLock timeoutInMillis w =
     (if lock_busy_ms (w_lock w) \<le> timeoutInMillis
      then (Inr (), w\<lparr>w_lock := (w_lock w)\<lparr>lock_held := True\<rparr>\<rparr>)
      else (Inl LockTimeout, w))"

definition releaseLock :: "(world, unit) js" where
  "releaseLock w =
     (Inr (), w\<lparr>w_lock := (w_lock w)\<lparr>lock_held := False,
                                      lock_releases := Suc (lock_releases (w_lock w))\<rparr>\<rparr>)"

text \<open>\<^verbatim>\<open>configs.map((config) => createSheetQuery(config, sheets))\<close>, stopping at the first throw.\<close>

fun createSheetQueries :: "sheet_query_config list \<Rightarrow> sheet list \<Rightarrow> thrown + sheet_query list" where
  "createSheetQueries [] sheets = Inr []"
| "createSheetQueries (config # configs) sheets =
     (case createSheetQuery config sheets of
        Inl e \<Rightarrow> Inl e
      | Inr q \<Rightarrow>
          (case createSheetQueries configs sheets of
             Inl e \<Rightarrow> Inl e
           | Inr qs \<Rightarrow> Inr (q # qs)))"

text \<open>
  The argument \<^verbatim>\<open>options?: Partial<{ timeouts: number }>\<close>: \<open>None\<close> when the caller passes
  none, else the caller's object, with its property \<^verbatim>\<open>timeouts\<close> (\<open>None\<close> when it has
  none) and whether it refuses an assignment to that property: \<open>read_only\<close> holds of
  an object that \<^verbatim>\<open>Object.freeze\<close> has frozen, of an object that is not extensible and
  has no property \<^verbatim>\<open>timeouts\<close>, and of an object whose property \<^verbatim>\<open>timeouts\<close> is not
  writable.
\<close>

record options =
  timeouts :: "int option"
  read_only :: bool

text \<open>\<^verbatim>\<open>(options ?? defaultOptions).timeouts ?? defaultOptions.timeouts\<close>, the value that is assigned.\<close>

definition effective_timeouts :: "options option \<Rightarrow> int" where
  "effective_timeouts opts =
     (case opts of
        None \<Rightarrow> 5000
      | Some opt \<Rightarrow> (case timeouts opt of None \<Rightarrow> 5000 | Some t \<Rightarrow> t))"

text \<open>
  The statements before the \<^verbatim>\<open>try\<close>:
  \<^verbatim>\<open>options = options ?? defaultOptions; options.timeouts = options.timeouts ?? defaultOptions.timeouts;\<close>
  The assignment writes into the caller's object when there is one, else into the local
  \<^verbatim>\<open>defaultOptions\<close>. The source is a module, hence strict code, where an assignment to
  a property that the object refuses is a \<^verbatim>\<open>TypeError\<close>. The result is the caller's
  object after the assignment.
\<close>

definition default_options :: "options option \<Rightarrow> thrown + options option" where
  "default_options opts =
     (case opts of
        None \<Rightarrow> Inr None
      | Some opt \<Rightarrow>
          if read_only opt
          then Inl (ThrownError (TypeError ''Cannot assign to read only property timeouts of object''))
          else Inr (Some (opt\<lparr>timeouts := Some (effective_timeouts opts)\<rparr>)))"

text \<open>
  The body of the \<^verbatim>\<open>try\<close> block. The procedure is any computation on the sessions and
  the store that returns a value or throws; it has no access to the lock.
\<close>

definition useSheetQuery_body ::
  "(sheet_query list \<Rightarrow> (sheet list, 'a) js) \<Rightarrow> sheet_query_config list \<Rightarrow> int \<Rightarrow>
     (world, ('a, js_error) result) js" where
  "useSheetQuery_body proc configs t w =
     (case waitLock t w of
        (Inl e, w1) \<Rightarrow> (Inl e, w1)
      | (Inr _, w1) \<Rightarrow>
          (case createSheetQueries configs (w_sheets w1) of
             Inl e \<Rightarrow> (Inl e, w1)
           | Inr queries \<Rightarrow>
               (case proc queries (w_sheets w1) of
                  (Inl e, sheets') \<Rightarrow> (Inl e, w1\<lparr>w_sheets := sheets'\<rparr>)
                | (Inr v, sheets') \<Rightarrow> (Inr (Ok v), w1\<lparr>w_sheets := sheets'\<rparr>))))"

text \<open>
  The \<^verbatim>\<open>catch\<close> block: \<^verbatim>\<open>Err(error)\<close> for an \<^verbatim>\<open>Error\<close> object, else
  \<^verbatim>\<open>Err(new Error(`${error}`))\<close>, where the rendering of the thrown value may throw.
\<close>

definition useSheetQuery_catch :: "thrown \<Rightarrow> (world, ('a, js_error) result) js" where
  "useSheetQuery_catch error w =
     (case error of
        ThrownError e \<Rightarrow> (Inr (Err e), w)
      | ThrownOther s \<Rightarrow> (Inr (Err (PlainError s)), w)
      | ThrownUnrenderable t \<Rightarrow> (Inl t, w))"

text \<open>
  \<^verbatim>\<open>useSheetQuery\<close>. A value thrown out of it (\<open>Inl\<close>) rejects the promise the function
  returns. The state is the caller's options object and the world.
\<close>

definition useSheetQuery ::
  "(sheet_query list \<Rightarrow> (sheet list, 'a) js) \<Rightarrow> sheet_query_config list \<Rightarrow> options option \<Rightarrow>
     world \<Rightarrow> (thrown + ('a, js_error) result) \<times> options option \<times> world" where
  "useSheetQuery proc configs opts w =
     (case default_options opts of
        Inl e \<Rightarrow> (Inl e, opts, w)
      | Inr opts' \<Rightarrow>
          (case try_catch_finally
                  (useSheetQuery_body proc configs (effective_timeouts opts))
                  useSheetQuery_catch
                  releaseLock w of
             (r, w') \<Rightarrow> (r, opts', w')))"

section \<open>Column index resolver\<close>

text \<open>
  \<^verbatim>\<open>obj[key] !== undefined\<close> for a plain object whose own properties are never
  \<^verbatim>\<open>undefined\<close>: the object has the key itself or inherits it from \<^verbatim>\<open>Object.prototype\<close>.
\<close>

definition has_property :: "(js_string \<rightharpoonup> 'v) \<Rightarrow> js_string \<Rightarrow> bool" where
  "has_property obj key \<longleftrightarrow> obj key \<noteq> None \<or> key \<in> set Object_prototype"

text \<open>
  \<^verbatim>\<open>getColumnIndices\<close> of \<^verbatim>\<open>src/server/utils/sheetQuery/index.ts\<close> (and \<^verbatim>\<open>getHeaderIndices\<close>
  of the earlier draft, the same code): the schema is an object from column name to
  type name, the result an object from column name to position.
  \<^verbatim>\<open>headers.reduce((acc, h, i) => ..., {})\<close> with the running index and the accumulator
  explicit; the map is the accumulator's own properties.
\<close>

fun reduce_headers ::
  "js_string list \<Rightarrow> nat \<Rightarrow> (js_string \<rightharpoonup> type_name) \<Rightarrow> (js_string \<rightharpoonup> nat) \<Rightarrow>
     thrown + (js_string \<rightharpoonup> nat)" where
  "reduce_headers [] i columnType acc = Inr acc"
| "reduce_headers (h # hs) i columnType acc =
     (if has_property columnType h
      then reduce_headers hs (Suc i) columnType (acc(h \<mapsto> i))
      else Inl (ThrownError (UnknownColumnName h)))"

definition getColumnIndices ::
  "js_string list \<Rightarrow> (js_string \<rightharpoonup> type_name) \<Rightarrow> thrown + (js_string \<rightharpoonup> nat)" where
  "getColumnIndices headers columnType = reduce_headers headers 0 columnType Map.empty"

section \<open>Decoding in the draft with the inline session\<close>

text \<open>
  The draft \<^verbatim>\<open>src/unnamed/part_001\<close> builds the index map \<^verbatim>\<open>columnIndexes\<close> with the code
  of \<^verbatim>\<open>getColumnIndices\<close> and decodes a row by
  \<^verbatim>\<open>Object.values(columnTypes).reduce((acc, header) => ({ ...acc, [header]: row[columnIndexes[header]] }), {})\<close>.
  Its schema is an object from column name to type name, here the list of its entries
  in their order; \<^verbatim>\<open>Object.values\<close> is the list of the type names, not of the column
  names. No type name is the name of a member of \<^verbatim>\<open>Object.prototype\<close>, so
  \<^verbatim>\<open>columnIndexes[header]\<close> is the map's own entry or \<^verbatim>\<open>undefined\<close>, and
  \<^verbatim>\<open>row[undefined]\<close> is \<^verbatim>\<open>undefined\<close>.
\<close>

definition cell_at :: "sheet_value list \<Rightarrow> nat option \<Rightarrow> sheet_value" where
  "cell_at row i = (case i of None \<Rightarrow> VUndefined | Some k \<Rightarrow> cell row k)"

fun reduce_values ::
  "js_string list \<Rightarrow> sheet_value list \<Rightarrow> (js_string \<rightharpoonup> nat) \<Rightarrow> sheet_record \<Rightarrow> sheet_record" where
  "reduce_values [] row columnIndexes acc = acc"
| "reduce_values (header # rest) row columnIndexes acc =
     reduce_values rest row columnIndexes (acc(header \<mapsto> cell_at row (columnIndexes header)))"

definition inline_decode ::
  "(js_string \<times> type_name) list \<Rightarrow> (js_string \<rightharpoonup> nat) \<Rightarrow> data_table \<Rightarrow> sheet_record list" where
  "inline_decode columnTypes columnIndexes vals =
     map (\<lambda>row. reduce_values (map (\<lambda>(k, t). type_name_str t) columnTypes) row columnIndexes
                  Map.empty) vals"

section \<open>The example of the source\<close>

text \<open>
  The schemas, the configurations and the procedure of the example at the end of
  \<^verbatim>\<open>index2.ts\<close>, and a spreadsheet for it to run on.
\<close>

definition USER_SHEET_ID :: int where
  "USER_SHEET_ID = 1000"

definition GROUP_SHEET_ID :: int where
  "GROUP_SHEET_ID = 2000"

definition USER_COLUMN_TYPES :: "column_type list" where
  "USER_COLUMN_TYPES =
     [\<lparr>name = ascii ''User ID'', ctype = TString\<rparr>,
      \<lparr>name = ascii ''Group ID'', ctype = TString\<rparr>,
      \<lparr>name = ascii ''Name'', ctype = TString\<rparr>,
      \<lparr>name = ascii ''Age'', ctype = TNumber\<rparr>,
      \<lparr>name = ascii ''Is Employed'', ctype = TBoolean\<rparr>]"

definition GROUP_COLUMN_TYPES :: "column_type list" where
  "GROUP_COLUMN_TYPES =
     [\<lparr>name = ascii ''Group ID'', ctype = TString\<rparr>,
      \<lparr>name = ascii ''Name'', ctype = TString\<rparr>,
      \<lparr>name = ascii ''Ave. Grades'', ctype = TNumber\<rparr>]"

definition userQueryConfig :: sheet_query_config where
  "userQueryConfig = \<lparr>config_id = USER_SHEET_ID, config_columnTypes = USER_COLUMN_TYPES\<rparr>"

definition groupQueryConfig :: sheet_query_config where
  "groupQueryConfig = \<lparr>config_id = GROUP_SHEET_ID, config_columnTypes = GROUP_COLUMN_TYPES\<rparr>"

text \<open>\<^verbatim>\<open>v["Ave. Grades"] > 1\<close>, on a number; \<^verbatim>\<open>undefined > 1\<close> is false.\<close>

fun greater_than :: "sheet_value \<Rightarrow> int \<Rightarrow> bool" where
  "greater_than (VNum n) k = (k < n)"
| "greater_than _ k = False"

text \<open>The records the procedure passes to \<^verbatim>\<open>set\<close> and \<^verbatim>\<open>append\<close>.\<close>

definition group_record :: "string \<Rightarrow> string \<Rightarrow> int \<Rightarrow> sheet_record" where
  "group_record group_id group_name grades =
     [ascii ''Group ID'' \<mapsto> VStr (ascii group_id), ascii ''Name'' \<mapsto> VStr (ascii group_name),
      ascii ''Ave. Grades'' \<mapsto> VNum grades]"

text \<open>
  The procedure: it reads the user session, calls \<^verbatim>\<open>set\<close>, \<^verbatim>\<open>append\<close>, \<^verbatim>\<open>deleteIf\<close> and
  \<^verbatim>\<open>commit\<close> on the group session, and returns the names and ages of the user session.
  Destructuring an empty list leaves \<^verbatim>\<open>user\<close> (here \<open>user_q\<close>) undefined, and
  \<^verbatim>\<open>user.read()\<close> is a \<^verbatim>\<open>TypeError\<close>; with one session \<^verbatim>\<open>group\<close> is undefined, and
  \<^verbatim>\<open>group.set(...)\<close> is a \<^verbatim>\<open>TypeError\<close>.
\<close>

definition example_proc ::
  "sheet_query list \<Rightarrow> (sheet list, (sheet_value \<times> sheet_value) list) js" where
  "example_proc queries sheets =
     (case queries of
        [] \<Rightarrow>
          (Inl (ThrownError (TypeError ''Cannot read properties of undefined (reading read)'')),
           sheets)
      | [user_q] \<Rightarrow>
          (Inl (ThrownError (TypeError ''Cannot read properties of undefined (reading set)'')),
           sheets)
      | user_q # group_q # _ \<Rightarrow>
          (let group1 = set_records
                 [group_record ''0123'' ''aaa'' 1, group_record ''4567'' ''bbb'' 6] group_q;
               group2 = append_records [group_record ''1234'' ''bbb'' 2] group1;
               group3 = deleteIf (\<lambda>v. greater_than (get_prop v (ascii ''Ave. Grades'')) 1) group2
           in case commit (group3, sheets) of
                (Inl e, (_, sheets')) \<Rightarrow> (Inl e, sheets')
              | (Inr _, (_, sheets')) \<Rightarrow>
                  (Inr (map (\<lambda>v. (get_prop v (ascii ''Name''), get_prop v (ascii ''Age'')))
                          (read user_q)),
                   sheets')))"


definition user_table :: data_table where
  "user_table =
     [map (\<lambda>s. VStr (ascii s))
        [''User ID <string>'', ''Group ID <string>'', ''Name <string>'', ''Age <number>'',
         ''Is Employed <boolean>''],
      [VStr (ascii ''u1''), VStr (ascii ''0123''), VStr (ascii ''Ann''), VNum 31, VBool True]]"

definition group_table :: data_table where
  "group_table =
     [map (\<lambda>s. VStr (ascii s)) [''Group ID <string>'', ''Name <string>'', ''Ave. Grades <number>''],
      [VStr (ascii ''0123''), VStr (ascii ''aaa''), VNum 1],
      [VStr (ascii ''4567''), VStr (ascii ''bbb''), VNum 6]]"

definition example_sheets :: "sheet list" where
  "example_sheets =
     [\<lparr>sheet_id = 1000, sheet_values = user_table\<rparr>,
      \<lparr>sheet_id = 2000, sheet_values = group_table\<rparr>]"

definition example_world :: "int \<Rightarrow> world" where
  "example_world busy =
     \<lparr>w_sheets = example_sheets,
      w_lock = \<lparr>lock_busy_ms = busy, lock_held = False, lock_releases = 0\<rparr>\<rparr>"


definition example_group_query :: sheet_query where
  "example_group_query =
     \<lparr>sq_sheet = 2000, sq_columnTypes = GROUP_COLUMN_TYPES,
      sq_records = decode GROUP_COLUMN_TYPES (drop 1 group_table)\<rparr>"

section \<open>The column index map of the specification\<close>

text \<open>
  The column name a header cell of \<^verbatim>\<open>index2.ts\<close> declares: the first capture group of
  \<^verbatim>\<open>HEADER_REGEX\<close> (\<^verbatim>\<open>matched?.[1]\<close>); the raw text of a cell that does not match.
\<close>

definition header_name :: "sheet_value \<Rightarrow> js_string" where
  "header_name rawHeader =
     (case rawHeader of
        VStr s \<Rightarrow> (case HEADER_REGEX_exec s of None \<Rightarrow> s | Some (header, _) \<Rightarrow> header)
      | _ \<Rightarrow> [])"

text \<open>
  This definition follows the specification, not \<^verbatim>\<open>index2.ts\<close>, which has no index map:
  the Column Index Map is the mapping from each column name to its position in the
  header row, built by the resolver from the names of the header cells and the schema.
\<close>

definition spec_columnIndexMap ::
  "sheet_value list \<Rightarrow> column_type list \<Rightarrow> thrown + (js_string \<rightharpoonup> nat)" where
  "spec_columnIndexMap headerRow columnTypes =
     getColumnIndices (map header_name headerRow) (map_of (map (\<lambda>c. (name c, ctype c)) columnTypes))"

text \<open>The group sheet of the example with its first two columns exchanged.\<close>

definition swapped_group_table :: data_table where
  "swapped_group_table =
     [map (\<lambda>s. VStr (ascii s)) [''Name <string>'', ''Group ID <string>'', ''Ave. Grades <number>''],
      [VStr (ascii ''aaa''), VStr (ascii ''0123''), VNum 1]]"

text \<open>The sheet list with that sheet alone, and the session opened on it.\<close>

definition swapped_sheets :: "sheet list" where
  "swapped_sheets = [\<lparr>sheet_id = 2000, sheet_values = swapped_group_table\<rparr>]"

definition swapped_group_query :: sheet_query where
  "swapped_group_query =
     \<lparr>sq_sheet = 2000, sq_columnTypes = GROUP_COLUMN_TYPES,
      sq_records = decode GROUP_COLUMN_TYPES (drop 1 swapped_group_table)\<rparr>"

text \<open>
  The schema of the group sheet in \<^verbatim>\<open>src/server/utils/sheetQuery/index.ts\<close>, an object from
  column name to type name.
\<close>

definition groupColumnTypes :: "js_string \<rightharpoonup> type_name" where
  "groupColumnTypes =
     [ascii ''Group ID'' \<mapsto> TString, ascii ''Name'' \<mapsto> TString, ascii ''Ave. Grades'' \<mapsto> TNumber]"

section \<open>Properties of strings\<close>

lemma ascii_eq_iff [simp]: "ascii a = ascii b \<longleftrightarrow> a = b"
proof -
  have "inj (\<lambda>c::char. (of_nat (of_char c) :: 16 word))"
  proof (rule injI)
    fix x y :: char
    assume "(of_nat (of_char x) :: 16 word) = of_nat (of_char y)"
    then have "unat (of_nat (of_char x) :: 16 word) = unat (of_nat (of_char y) :: 16 word)"
      by simp
    moreover have "(of_char x :: nat) < 256" "(of_char y :: nat) < 256"
      using of_char_mod_256 [of x, where ?'a = nat] of_char_mod_256 [of y, where ?'a = nat]
      by (metis mod_less_divisor zero_less_numeral)+
    ultimately have "(of_char x :: nat) = of_char y"
      by (simp add: unat_of_nat)
    then show "x = y" by simp
  qed
  then show ?thesis unfolding ascii_def by (simp add: inj_map_eq_map)
qed

lemma ascii_lt: "ascii ''<'' = [0x003C]"
  by (simp add: ascii_def)

section \<open>Properties of the codec\<close>

lemma reduce_columns_apply:
  assumes "\<And>k. k < length cs \<Longrightarrow> cell row (i + k) = f (name (cs ! k))"
  shows "reduce_columns cs i row acc n =
           (if n \<in> name ` set cs then Some (f n) else acc n)"
  using assms
proof (induction cs arbitrary: i acc)
  case Nil
  show ?case by simp
next
  case (Cons c cs)
  have here: "cell row i = f (name c)"
    using Cons.prems [of 0] by simp
  have rest: "\<And>k. k < length cs \<Longrightarrow> cell row (Suc i + k) = f (name (cs ! k))"
    using Cons.prems [of "Suc k" for k] by simp
  show ?case
    by (simp add: Cons.IH [OF rest] here)
qed

lemma cell_encoded_row:
  "k < length cs \<Longrightarrow> cell (map (\<lambda>c. get_prop r (name c)) cs) (0 + k) = get_prop r (name (cs ! k))"
  by (simp add: cell_def)

lemma decode_encoded_row:
  assumes "dom r = name ` set cs"
  shows "reduce_columns cs 0 (map (\<lambda>c. get_prop r (name c)) cs) Map.empty = r"
proof
  fix n
  have "reduce_columns cs 0 (map (\<lambda>c. get_prop r (name c)) cs) Map.empty n =
          (if n \<in> name ` set cs then Some (get_prop r n) else None)"
    by (simp add: reduce_columns_apply [where f = "get_prop r", OF cell_encoded_row])
  also have "\<dots> = r n"
  proof (cases "r n")
    case None
    then have "n \<notin> dom r" by (simp add: domIff)
    with assms None show ?thesis by simp
  next
    case (Some v)
    then have "n \<in> dom r" by (simp add: domIff)
    with assms Some show ?thesis by (simp add: get_prop_def)
  qed
  finally show "reduce_columns cs 0 (map (\<lambda>c. get_prop r (name c)) cs) Map.empty n = r n" .
qed

text \<open>
  C1. Round-trip law of the record codec: for every schema and every list of records
  whose key sets are exactly the schema's column names, decoding the grid that encoding
  produces gives the records back. The index of a column is its position in the schema.
\<close>

theorem codec_round_trip:
  assumes "\<forall>r \<in> set records. dom r = set (map name columnTypes)"
  shows "decode columnTypes (encode columnTypes records) = records"
  using assms
  by (simp add: decode_def encode_def map_idI decode_encoded_row)

theorem codec_round_trip_witness:
  "dom (group_record ''0123'' ''aaa'' 1) = set (map name GROUP_COLUMN_TYPES)
   \<and> decode GROUP_COLUMN_TYPES (encode GROUP_COLUMN_TYPES [group_record ''0123'' ''aaa'' 1])
     = [group_record ''0123'' ''aaa'' 1]"
proof -
  have d: "dom (group_record ''0123'' ''aaa'' 1) = set (map name GROUP_COLUMN_TYPES)"
    by (auto simp: group_record_def GROUP_COLUMN_TYPES_def)
  then have h: "\<forall>r \<in> set [group_record ''0123'' ''aaa'' 1]. dom r = set (map name GROUP_COLUMN_TYPES)"
    by simp
  show ?thesis
    using d codec_round_trip [OF h] by simp
qed

section \<open>Properties of the transaction runner\<close>







lemma body_lock_timeout:
  "t < lock_busy_ms (w_lock w) \<Longrightarrow> useSheetQuery_body proc configs t w = (Inl LockTimeout, w)"
  by (simp add: useSheetQuery_body_def waitLock_def)










lemma example_validate_group: "validateColumnTypes group_table GROUP_COLUMN_TYPES = Inr ()"
  by code_simp




lemma example_group_read:
  "read example_group_query = [group_record ''0123'' ''aaa'' 1, group_record ''4567'' ''bbb'' 6]"
  by (simp add: read_def example_group_query_def decode_def GROUP_COLUMN_TYPES_def
      group_table_def cell_def group_record_def)







text \<open>
  C4. When the lock is not acquired within the timeout, the backing store is unchanged
  and the procedure is not invoked: the outcome is the same for every procedure. The
  runner, which attempts the lock once the defaulting of its options has passed, then
  returns a failure result, with the error of the timeout.
\<close>

theorem useSheetQuery_lock_timeout:
  assumes "effective_timeouts opts < lock_busy_ms (w_lock w)"
  shows "(default_options opts = Inr opts' \<longrightarrow>
            fst (useSheetQuery proc configs opts w) =
              Inr (Err (PlatformException ''Lock timeout: another process was holding the lock for too long.'')))
         \<and> w_sheets (snd (snd (useSheetQuery proc configs opts w))) = w_sheets w
         \<and> useSheetQuery proc configs opts w = useSheetQuery proc' configs opts w"
  using assms
  by (cases "default_options opts")
    (simp_all add: useSheetQuery_def try_catch_finally_def body_lock_timeout LockTimeout_def
      useSheetQuery_catch_def releaseLock_def)

theorem useSheetQuery_lock_timeout_witness:
  "effective_timeouts (Some \<lparr>timeouts = Some 10, read_only = False\<rparr>) <
     lock_busy_ms (w_lock (example_world 11))
   \<and> fst (useSheetQuery example_proc [userQueryConfig, groupQueryConfig]
            (Some \<lparr>timeouts = Some 10, read_only = False\<rparr>) (example_world 11)) =
       Inr (Err (PlatformException ''Lock timeout: another process was holding the lock for too long.''))
   \<and> w_sheets (snd (snd (useSheetQuery example_proc [userQueryConfig, groupQueryConfig]
            (Some \<lparr>timeouts = Some 10, read_only = False\<rparr>) (example_world 11)))) = example_sheets
   \<and> useSheetQuery example_proc [userQueryConfig, groupQueryConfig]
            (Some \<lparr>timeouts = Some 10, read_only = False\<rparr>) (example_world 11) =
       useSheetQuery (\<lambda>queries sheets. (Inr [], [])) [userQueryConfig, groupQueryConfig]
            (Some \<lparr>timeouts = Some 10, read_only = False\<rparr>) (example_world 11)"
proof -
  have d: "default_options (Some \<lparr>timeouts = Some 10, read_only = False\<rparr>) =
      Inr (Some \<lparr>timeouts = Some 10, read_only = False\<rparr>)"
    by (simp add: default_options_def effective_timeouts_def)
  have h: "effective_timeouts (Some \<lparr>timeouts = Some 10, read_only = False\<rparr>) <
      lock_busy_ms (w_lock (example_world 11))"
    by (simp add: effective_timeouts_def example_world_def)
  have s: "w_sheets (example_world 11) = example_sheets"
    by (simp add: example_world_def)
  show ?thesis
    using d h useSheetQuery_lock_timeout [OF h, of "Some \<lparr>timeouts = Some 10, read_only = False\<rparr>"
        example_proc "[userQueryConfig, groupQueryConfig]"
        "\<lambda>queries sheets. (Inr [], [])", unfolded s]
    by blast
qed

section \<open>Properties of the table session\<close>

lemma count_list_filter: "P r \<Longrightarrow> count_list (filter P xs) r = count_list xs r"
  by (induction xs) auto

text \<open>
  C7. \<^verbatim>\<open>deleteIf\<close> removes exactly the records for which the predicate holds and keeps
  the others in their order: the new working set is a subsequence of the old one, its
  elements are the old records that do not satisfy the predicate, each as often as
  before, and when no record satisfies the predicate the working set is unchanged.
\<close>

theorem deleteIf_removes_exactly:
  "set (read (deleteIf condition q)) = {r \<in> set (read q). \<not> condition r}
   \<and> subseq (read (deleteIf condition q)) (read q)
   \<and> (\<forall>r. \<not> condition r \<longrightarrow> count_list (read (deleteIf condition q)) r = count_list (read q) r)
   \<and> ((\<forall>r \<in> set (read q). \<not> condition r) \<longrightarrow> read (deleteIf condition q) = read q)"
  by (simp add: deleteIf_def read_def count_list_filter filter_id_conv)

theorem deleteIf_removes_exactly_witness:
  "read (deleteIf (\<lambda>v. greater_than (get_prop v (ascii ''Ave. Grades'')) 10) example_group_query) =
     [group_record ''0123'' ''aaa'' 1, group_record ''4567'' ''bbb'' 6]"
  using deleteIf_removes_exactly [of "\<lambda>v. greater_than (get_prop v (ascii ''Ave. Grades'')) 10"
      example_group_query]
  by (simp add: example_group_read get_prop_def group_record_def)

text \<open>
  C10. \<^verbatim>\<open>commit\<close> never modifies the working set: whether it writes or throws, the
  session it leaves is the session it found, and \<^verbatim>\<open>read\<close> returns the same list of
  records after it as before.
\<close>

theorem commit_keeps_working_set:
  "read (fst (snd (commit (q, sheets)))) = read q \<and> fst (snd (commit (q, sheets))) = q"
  by (simp add: commit_def Let_def split: list.splits option.splits sum.splits)

theorem commit_keeps_working_set_witness:
  "read (fst (snd (commit (example_group_query, example_sheets)))) =
     [group_record ''0123'' ''aaa'' 1, group_record ''4567'' ''bbb'' 6]"
  using commit_keeps_working_set [of example_group_query example_sheets]
  by (simp add: example_group_read)

lemma commit_empty:
  "sq_records q = [] \<Longrightarrow>
   commit (q, sheets) =
     (Inl (ThrownError (TypeError ''Cannot read properties of undefined (reading length)'')),
      (q, sheets))"
  by (simp add: commit_def encode_def)

text \<open>
  C5. \<^verbatim>\<open>commit\<close> on an empty working set should not throw and should leave the header
  row alone. The code throws: after \<^verbatim>\<open>set([])\<close> on the group session of the example,
  \<^verbatim>\<open>commit()\<close> evaluates \<^verbatim>\<open>values[0].length\<close> with \<^verbatim>\<open>values = []\<close>, a \<^verbatim>\<open>TypeError\<close>,
  before any range is requested; the store is unchanged.
\<close>

theorem commit_empty_throws:
  "commit (set_records [] example_group_query, example_sheets) =
     (Inl (ThrownError (TypeError ''Cannot read properties of undefined (reading length)'')),
      (\<lparr>sq_sheet = 2000, sq_columnTypes = GROUP_COLUMN_TYPES, sq_records = []\<rparr>, example_sheets))"
  by (simp add: commit_def encode_def set_records_def example_group_query_def)

section \<open>Properties of the column index resolver\<close>

lemma reduce_headers_Inr_iff:
  "(\<exists>m. reduce_headers hs i ct acc = Inr m) \<longleftrightarrow> (\<forall>h \<in> set hs. has_property ct h)"
  by (induction hs arbitrary: i acc) auto

lemma reduce_headers_dom:
  "reduce_headers hs i ct acc = Inr m \<Longrightarrow> dom m = dom acc \<union> set hs"
  by (induction hs arbitrary: i acc) (auto split: if_splits)

lemma reduce_headers_other:
  "reduce_headers hs i ct acc = Inr m \<Longrightarrow> n \<notin> set hs \<Longrightarrow> m n = acc n"
  by (induction hs arbitrary: i acc) (auto split: if_splits)

lemma reduce_headers_last:
  "reduce_headers hs i ct acc = Inr m \<Longrightarrow> k < length hs \<Longrightarrow>
   \<forall>k'. k < k' \<and> k' < length hs \<longrightarrow> hs ! k' \<noteq> hs ! k \<Longrightarrow>
   m (hs ! k) = Some (i + k)"
proof (induction hs arbitrary: i acc k)
  case Nil
  then show ?case by simp
next
  case (Cons h hs)
  from Cons.prems(1) have r: "reduce_headers hs (Suc i) ct (acc(h \<mapsto> i)) = Inr m"
    by (simp split: if_splits)
  show ?case
  proof (cases k)
    case 0
    have "h \<notin> set hs"
    proof
      assume "h \<in> set hs"
      then obtain j where "j < length hs" "hs ! j = h" by (auto simp: in_set_conv_nth)
      with Cons.prems(3) [rule_format, of "Suc j"] 0 show False by simp
    qed
    with reduce_headers_other [OF r] 0 show ?thesis by simp
  next
    case (Suc k0)
    have "\<forall>k'. k0 < k' \<and> k' < length hs \<longrightarrow> hs ! k' \<noteq> hs ! k0"
    proof (intro allI impI)
      fix k' assume "k0 < k' \<and> k' < length hs"
      with Cons.prems(3) [rule_format, of "Suc k'"] Suc show "hs ! k' \<noteq> hs ! k0" by simp
    qed
    with Cons.IH [OF r, of k0] Cons.prems(2) Suc show ?thesis by simp
  qed
qed

lemma reduce_headers_Inl:
  "\<not> (\<forall>h \<in> set hs. has_property ct h) \<Longrightarrow>
   \<exists>pre h post. hs = pre @ h # post \<and> (\<forall>x \<in> set pre. has_property ct x) \<and>
     \<not> has_property ct h \<and>
     reduce_headers hs i ct acc = Inl (ThrownError (UnknownColumnName h))"
proof (induction hs arbitrary: i acc)
  case Nil
  then show ?case by simp
next
  case (Cons x hs)
  show ?case
  proof (cases "has_property ct x")
    case False
    then have "x # hs = [] @ x # hs \<and> (\<forall>y \<in> set []. has_property ct y) \<and>
        \<not> has_property ct x \<and>
        reduce_headers (x # hs) i ct acc = Inl (ThrownError (UnknownColumnName x))"
      by simp
    then show ?thesis by blast
  next
    case True
    with Cons.prems have "\<not> (\<forall>h \<in> set hs. has_property ct h)" by simp
    from Cons.IH [OF this, of "Suc i" "acc(x \<mapsto> i)"]
    obtain pre h post where p: "hs = pre @ h # post" "\<forall>y \<in> set pre. has_property ct y"
      "\<not> has_property ct h"
      "reduce_headers hs (Suc i) ct (acc(x \<mapsto> i)) = Inl (ThrownError (UnknownColumnName h))"
      by blast
    with True have "x # hs = (x # pre) @ h # post \<and> (\<forall>y \<in> set (x # pre). has_property ct y) \<and>
        \<not> has_property ct h \<and>
        reduce_headers (x # hs) i ct acc = Inl (ThrownError (UnknownColumnName h))"
      by simp
    then show ?thesis by blast
  qed
qed

text \<open>
  C6, as amended. The resolver has no check for a schema column that is missing from
  the header row. A header cell passes its test \<^verbatim>\<open>columnType[h] !== undefined\<close> when it
  is a column of the schema or the name of a member that the schema object inherits from
  \<^verbatim>\<open>Object.prototype\<close>. The resolver succeeds exactly when every header cell passes; the
  map it returns has the header cells as its keys, each at its last position. It fails
  only at the first header cell that does not pass, with the unknown column error for
  that cell.
\<close>

theorem getColumnIndices_resolves_headers:
  "((\<forall>h \<in> set headers. has_property columnType h) \<longrightarrow>
      (\<exists>m. getColumnIndices headers columnType = Inr m \<and> dom m = set headers \<and>
           (\<forall>k < length headers.
              (\<forall>k'. k < k' \<and> k' < length headers \<longrightarrow> headers ! k' \<noteq> headers ! k) \<longrightarrow>
              m (headers ! k) = Some k)))
   \<and> (\<not> (\<forall>h \<in> set headers. has_property columnType h) \<longrightarrow>
      (\<exists>pre h post. headers = pre @ h # post \<and> (\<forall>x \<in> set pre. has_property columnType x) \<and>
         \<not> has_property columnType h \<and>
         getColumnIndices headers columnType = Inl (ThrownError (UnknownColumnName h))))
   \<and> (has_property columnType key \<longleftrightarrow> key \<in> dom columnType \<or> key \<in> set Object_prototype)"
proof (intro conjI impI)
  assume "\<forall>h \<in> set headers. has_property columnType h"
  then obtain m where m: "reduce_headers headers 0 columnType Map.empty = Inr m"
    using reduce_headers_Inr_iff [of headers 0 columnType Map.empty] by blast
  have "dom m = set headers"
    using reduce_headers_dom [OF m] by simp
  moreover have "\<forall>k < length headers.
              (\<forall>k'. k < k' \<and> k' < length headers \<longrightarrow> headers ! k' \<noteq> headers ! k) \<longrightarrow>
              m (headers ! k) = Some k"
    using reduce_headers_last [OF m] by simp
  ultimately show "\<exists>m. getColumnIndices headers columnType = Inr m \<and> dom m = set headers \<and>
           (\<forall>k < length headers.
              (\<forall>k'. k < k' \<and> k' < length headers \<longrightarrow> headers ! k' \<noteq> headers ! k) \<longrightarrow>
              m (headers ! k) = Some k)"
    using m by (simp add: getColumnIndices_def)
next
  assume "\<not> (\<forall>h \<in> set headers. has_property columnType h)"
  then show "\<exists>pre h post. headers = pre @ h # post \<and> (\<forall>x \<in> set pre. has_property columnType x) \<and>
         \<not> has_property columnType h \<and>
         getColumnIndices headers columnType = Inl (ThrownError (UnknownColumnName h))"
    unfolding getColumnIndices_def by (rule reduce_headers_Inl)
next
  show "has_property columnType key \<longleftrightarrow> key \<in> dom columnType \<or> key \<in> set Object_prototype"
    by (simp add: has_property_def domIff)
qed

theorem getColumnIndices_resolves_headers_witness:
  "(\<exists>m. getColumnIndices [ascii ''Group ID'', ascii ''Name''] groupColumnTypes = Inr m
       \<and> dom m = {ascii ''Group ID'', ascii ''Name''} \<and> m (ascii ''Name'') = Some 1)
   \<and> has_property groupColumnTypes (ascii ''toString'')
   \<and> \<not> has_property groupColumnTypes (ascii ''Age'')"
proof (intro conjI)
  have h: "\<forall>h \<in> set [ascii ''Group ID'', ascii ''Name'']. has_property groupColumnTypes h"
    by (simp add: has_property_def groupColumnTypes_def)
  from getColumnIndices_resolves_headers [of "[ascii ''Group ID'', ascii ''Name'']"
      groupColumnTypes] h
  obtain m where m: "getColumnIndices [ascii ''Group ID'', ascii ''Name''] groupColumnTypes = Inr m"
      "dom m = set [ascii ''Group ID'', ascii ''Name'']"
      "\<forall>k < length [ascii ''Group ID'', ascii ''Name''].
              (\<forall>k'. k < k' \<and> k' < length [ascii ''Group ID'', ascii ''Name''] \<longrightarrow>
                 [ascii ''Group ID'', ascii ''Name''] ! k' \<noteq> [ascii ''Group ID'', ascii ''Name''] ! k) \<longrightarrow>
              m ([ascii ''Group ID'', ascii ''Name''] ! k) = Some k"
    by blast
  from m(3) have "m ([ascii ''Group ID'', ascii ''Name''] ! 1) = Some 1" by auto
  then have "m (ascii ''Name'') = Some 1" by simp
  with m(1,2) show "\<exists>m. getColumnIndices [ascii ''Group ID'', ascii ''Name''] groupColumnTypes = Inr m
       \<and> dom m = {ascii ''Group ID'', ascii ''Name''} \<and> m (ascii ''Name'') = Some 1"
    by auto
  show "has_property groupColumnTypes (ascii ''toString'')"
    using getColumnIndices_resolves_headers [of "[]" groupColumnTypes "ascii ''toString''"]
    by (simp add: Object_prototype_def)
  show "\<not> has_property groupColumnTypes (ascii ''Age'')"
    using getColumnIndices_resolves_headers [of "[]" groupColumnTypes "ascii ''Age''"]
    by (simp add: Object_prototype_def groupColumnTypes_def)
qed

text \<open>
  C6 as stated fails: with the group schema and a header row without
  \<^verbatim>\<open>Ave. Grades\<close>, the resolver succeeds, and the declared column \<^verbatim>\<open>Ave. Grades\<close> has
  no position in the map it returns.
\<close>

theorem getColumnIndices_missing_column_counterexample:
  "getColumnIndices [ascii ''Group ID'', ascii ''Name''] groupColumnTypes =
     Inr [ascii ''Group ID'' \<mapsto> 0, ascii ''Name'' \<mapsto> 1]
   \<and> groupColumnTypes (ascii ''Ave. Grades'') = Some TNumber
   \<and> [ascii ''Group ID'' \<mapsto> 0::nat, ascii ''Name'' \<mapsto> 1] (ascii ''Ave. Grades'') = None"
  by (simp add: getColumnIndices_def has_property_def groupColumnTypes_def)

text \<open>A header cell named after an inherited member is resolved like a column.\<close>

lemma getColumnIndices_inherited_example:
  "getColumnIndices [ascii ''Name'', ascii ''toString''] groupColumnTypes =
     Inr [ascii ''Name'' \<mapsto> 0, ascii ''toString'' \<mapsto> 1]"
  by (simp add: getColumnIndices_def has_property_def groupColumnTypes_def Object_prototype_def)

section \<open>Properties of the header validator\<close>

lemma take_takeWhile: "n \<le> length (takeWhile p s) \<Longrightarrow> take n s = take n (takeWhile p s)"
proof -
  assume n: "n \<le> length (takeWhile p s)"
  have "take n s = take n (takeWhile p s @ dropWhile p s)" by simp
  also have "\<dots> = take n (takeWhile p s)" using n by (simp del: takeWhile_dropWhile_id)
  finally show ?thesis .
qed

lemma greedy_iff:
  "(x, r) \<in> set (greedy p m s) \<longleftrightarrow> x @ r = s \<and> m \<le> length x \<and> (\<forall>c \<in> set x. p c)"
proof
  assume "(x, r) \<in> set (greedy p m s)"
  then obtain n where n: "m \<le> n" "n \<le> length (takeWhile p s)" "x = take n s" "r = drop n s"
    by (auto simp: greedy_def)
  have len: "length (takeWhile p s) \<le> length s" by (rule length_takeWhile_le)
  have "set x \<subseteq> set (takeWhile p s)"
    using n(2,3) take_takeWhile [of n p s] by (simp add: set_take_subset)
  then have "\<forall>c \<in> set x. p c" by (auto dest: set_takeWhileD)
  with n len show "x @ r = s \<and> m \<le> length x \<and> (\<forall>c \<in> set x. p c)" by simp
next
  assume a: "x @ r = s \<and> m \<le> length x \<and> (\<forall>c \<in> set x. p c)"
  then have "takeWhile p s = x @ takeWhile p r" by (auto simp: takeWhile_append2)
  then have "length x \<le> length (takeWhile p s)" by simp
  with a have "length x \<in> set (rev [m ..< Suc (length (takeWhile p s))])" by auto
  moreover from a have "(x, r) = (take (length x) s, drop (length x) s)" by auto
  ultimately show "(x, r) \<in> set (greedy p m s)"
    unfolding greedy_def by (metis (mono_tags, lifting) image_eqI set_map)
qed

lemma lit_iff: "(l', r) \<in> set (lit l s) \<longleftrightarrow> l' = l \<and> s = l @ r"
  by (auto simp: lit_def) (metis append_take_drop_id)

lemma alternatives_iff: "(l, r) \<in> set (alternatives ls s) \<longleftrightarrow> l \<in> set ls \<and> s = l @ r"
  by (auto simp: alternatives_def lit_iff)

lemma in_set_bind_pairs:
  "y \<in> set (concat (map (\<lambda>(a, b). f a b) xs)) \<longleftrightarrow> (\<exists>a b. (a, b) \<in> set xs \<and> y \<in> set (f a b))"
  by auto

lemma HEADER_REGEX_matches_mem:
  "(g1, g2) \<in> set (HEADER_REGEX_matches s) \<longleftrightarrow>
   (\<exists>ws0 r1 r2 ws1 r3 l1 r4 r5 l2 r6 ws2.
     (ws0, r1) \<in> set (greedy is_space 0 s) \<and>
     (g1, r2) \<in> set (greedy not_lt 1 r1) \<and>
     (ws1, r3) \<in> set (greedy is_space 1 r2) \<and>
     (l1, r4) \<in> set (lit (ascii ''<'') r3) \<and>
     (g2, r5) \<in> set (alternatives (map ascii [''string'', ''number'', ''boolean'', ''Date'']) r4) \<and>
     (l2, r6) \<in> set (lit (ascii ''>'') r5) \<and>
     (ws2, []) \<in> set (greedy is_space 0 r6))"
  unfolding HEADER_REGEX_matches_def in_set_bind_pairs
  apply (simp only: set_simps empty_iff insert_iff if_distrib [of "\<lambda>xs. _ \<in> set xs"] prod.inject simp_thms cong: if_cong)
  apply (simp only: if_bool_eq_conj simp_thms)
  apply (rule iffI)
   apply (elim exE conjE)
   apply (intro exI conjI; (assumption | simp))
  apply (elim exE conjE)
  apply (intro exI conjI; (assumption | simp))
  done

lemma HEADER_REGEX_matches_iff:
  "(g1, g2) \<in> set (HEADER_REGEX_matches s) \<longleftrightarrow>
     (\<exists>ws0 ws1 ws2.
        s = ws0 @ g1 @ ws1 @ ascii ''<'' @ g2 @ ascii ''>'' @ ws2 \<and>
        (\<forall>c \<in> set ws0. is_space c) \<and>
        g1 \<noteq> [] \<and> (\<forall>c \<in> set g1. not_lt c) \<and>
        ws1 \<noteq> [] \<and> (\<forall>c \<in> set ws1. is_space c) \<and>
        g2 \<in> set (map ascii [''string'', ''number'', ''boolean'', ''Date'']) \<and>
        (\<forall>c \<in> set ws2. is_space c))"
proof
  assume "(g1, g2) \<in> set (HEADER_REGEX_matches s)"
  then obtain ws0 r1 r2 ws1 r3 l1 r4 r5 l2 r6 ws2 where m:
    "(ws0, r1) \<in> set (greedy is_space 0 s)"
    "(g1, r2) \<in> set (greedy not_lt 1 r1)"
    "(ws1, r3) \<in> set (greedy is_space 1 r2)"
    "(l1, r4) \<in> set (lit (ascii ''<'') r3)"
    "(g2, r5) \<in> set (alternatives (map ascii [''string'', ''number'', ''boolean'', ''Date'']) r4)"
    "(l2, r6) \<in> set (lit (ascii ''>'') r5)"
    "(ws2, []) \<in> set (greedy is_space 0 r6)"
    unfolding HEADER_REGEX_matches_mem by (elim exE conjE)
  from m have eqs: "s = ws0 @ r1" "r1 = g1 @ r2" "r2 = ws1 @ r3" "r3 = ascii ''<'' @ r4"
      "r4 = g2 @ r5" "r5 = ascii ''>'' @ r6" "r6 = ws2"
    by (simp_all add: greedy_iff lit_iff alternatives_iff del: append.simps)
  have s: "s = ws0 @ g1 @ ws1 @ ascii ''<'' @ g2 @ ascii ''>'' @ ws2"
    by (simp only: eqs)
  from m have props: "\<forall>c \<in> set ws0. is_space c" "g1 \<noteq> []" "\<forall>c \<in> set g1. not_lt c"
      "ws1 \<noteq> []" "\<forall>c \<in> set ws1. is_space c"
      "g2 \<in> set (map ascii [''string'', ''number'', ''boolean'', ''Date''])" "\<forall>c \<in> set ws2. is_space c"
    by (auto simp: greedy_iff alternatives_iff Suc_le_eq)
  from s props show "\<exists>ws0 ws1 ws2.
        s = ws0 @ g1 @ ws1 @ ascii ''<'' @ g2 @ ascii ''>'' @ ws2 \<and>
        (\<forall>c \<in> set ws0. is_space c) \<and>
        g1 \<noteq> [] \<and> (\<forall>c \<in> set g1. not_lt c) \<and>
        ws1 \<noteq> [] \<and> (\<forall>c \<in> set ws1. is_space c) \<and>
        g2 \<in> set (map ascii [''string'', ''number'', ''boolean'', ''Date'']) \<and>
        (\<forall>c \<in> set ws2. is_space c)"
    by blast
next
  assume "\<exists>ws0 ws1 ws2.
        s = ws0 @ g1 @ ws1 @ ascii ''<'' @ g2 @ ascii ''>'' @ ws2 \<and>
        (\<forall>c \<in> set ws0. is_space c) \<and>
        g1 \<noteq> [] \<and> (\<forall>c \<in> set g1. not_lt c) \<and>
        ws1 \<noteq> [] \<and> (\<forall>c \<in> set ws1. is_space c) \<and>
        g2 \<in> set (map ascii [''string'', ''number'', ''boolean'', ''Date'']) \<and>
        (\<forall>c \<in> set ws2. is_space c)"
  then obtain ws0 ws1 ws2 where d:
        "s = ws0 @ g1 @ ws1 @ ascii ''<'' @ g2 @ ascii ''>'' @ ws2"
        "\<forall>c \<in> set ws0. is_space c"
        "g1 \<noteq> []" "\<forall>c \<in> set g1. not_lt c"
        "ws1 \<noteq> []" "\<forall>c \<in> set ws1. is_space c"
        "g2 \<in> set (map ascii [''string'', ''number'', ''boolean'', ''Date''])"
        "\<forall>c \<in> set ws2. is_space c"
    by blast
  have f1: "(ws0, g1 @ ws1 @ ascii ''<'' @ g2 @ ascii ''>'' @ ws2) \<in> set (greedy is_space 0 s)"
    using d by (simp add: greedy_iff del: append.simps)
  have f2: "(g1, ws1 @ ascii ''<'' @ g2 @ ascii ''>'' @ ws2) \<in> set (greedy not_lt 1 (g1 @ ws1 @ ascii ''<'' @ g2 @ ascii ''>'' @ ws2))"
    using d by (simp add: greedy_iff Suc_le_eq del: append.simps)
  have f3: "(ws1, ascii ''<'' @ g2 @ ascii ''>'' @ ws2) \<in> set (greedy is_space 1 (ws1 @ ascii ''<'' @ g2 @ ascii ''>'' @ ws2))"
    using d by (simp add: greedy_iff Suc_le_eq del: append.simps)
  have f4: "(ascii ''<'', g2 @ ascii ''>'' @ ws2) \<in> set (lit (ascii ''<'') (ascii ''<'' @ g2 @ ascii ''>'' @ ws2))"
    by (simp add: lit_iff del: append.simps)
  have f5: "(g2, ascii ''>'' @ ws2) \<in> set (alternatives (map ascii [''string'', ''number'', ''boolean'', ''Date'']) (g2 @ ascii ''>'' @ ws2))"
    using d by (simp add: alternatives_iff del: append.simps)
  have f6: "(ascii ''>'', ws2) \<in> set (lit (ascii ''>'') (ascii ''>'' @ ws2))"
    by (simp add: lit_iff del: append.simps)
  have f7: "(ws2, []) \<in> set (greedy is_space 0 ws2)"
    using d by (simp add: greedy_iff)
  show "(g1, g2) \<in> set (HEADER_REGEX_matches s)"
    unfolding HEADER_REGEX_matches_mem
    using f1 f2 f3 f4 f5 f6 f7 by (intro exI conjI)
qed

lemma HEADER_REGEX_exec_Some:
  "HEADER_REGEX_exec s = Some m \<Longrightarrow> m \<in> set (HEADER_REGEX_matches s)"
  by (auto simp: HEADER_REGEX_exec_def split: list.splits)

lemma HEADER_REGEX_exec_grammar:
  assumes "HEADER_REGEX_exec s = Some (n, t)"
  shows "\<exists>ws0 ws1 ws2.
        s = ws0 @ n @ ws1 @ ascii ''<'' @ t @ ascii ''>'' @ ws2 \<and>
        (\<forall>c \<in> set ws0. is_space c) \<and>
        n \<noteq> [] \<and> (\<forall>c \<in> set n. not_lt c) \<and>
        ws1 \<noteq> [] \<and> (\<forall>c \<in> set ws1. is_space c) \<and>
        t \<in> set (map ascii [''string'', ''number'', ''boolean'', ''Date'']) \<and>
        (\<forall>c \<in> set ws2. is_space c)"
  using HEADER_REGEX_exec_Some [OF assms] by (simp only: HEADER_REGEX_matches_iff)

lemma HEADER_REGEX_exec_unannotated:
  assumes "0x003C \<notin> set s"
  shows "HEADER_REGEX_exec s = None"
proof (cases "HEADER_REGEX_exec s")
  case None
  then show ?thesis .
next
  case (Some m)
  obtain n t where "m = (n, t)" by (cases m)
  with Some have "HEADER_REGEX_exec s = Some (n, t)" by simp
  from HEADER_REGEX_exec_grammar [OF this]
  obtain ws0 ws1 ws2 where "s = ws0 @ n @ ws1 @ ascii ''<'' @ t @ ascii ''>'' @ ws2" by blast
  then have "0x003C \<in> set s" by (simp add: ascii_lt)
  with assms show ?thesis by simp
qed

lemma validate_headers_append:
  "validate_headers pre cols = Inr () \<Longrightarrow>
   validate_headers (pre @ rest) cols = validate_headers rest cols"
  by (induction pre) (auto split: sum.splits)

lemma validate_headers_Inr:
  "validate_headers hs cols = Inr () \<Longrightarrow> c \<in> set hs \<Longrightarrow> validate_header c cols = Inr ()"
  by (induction hs) (auto split: sum.splits)

lemma validate_header_Inr:
  assumes "validate_header c cols = Inr ()"
  shows "\<exists>s n t. c = VStr s \<and> HEADER_REGEX_exec s = Some (n, t) \<and>
           (\<exists>ct \<in> set cols. name ct = n \<and> type_name_str (ctype ct) = t)"
proof -
  from assms obtain s where c: "c = VStr s"
    by (cases c) (simp_all add: validate_header_def)
  from assms c obtain n t where e: "HEADER_REGEX_exec s = Some (n, t)"
    by (cases "HEADER_REGEX_exec s") (auto simp: validate_header_def)
  from assms c e obtain ct where
    "find (\<lambda>ct. type_name_str (ctype ct) = t \<and> name ct = n) cols = Some ct"
    by (auto simp: validate_header_def split: option.splits)
  then have "ct \<in> set cols \<and> name ct = n \<and> type_name_str (ctype ct) = t"
    by (auto simp: find_Some_iff in_set_conv_nth)
  with c e show ?thesis by blast
qed

text \<open>
  C8, as amended. The header validator does not accept an unannotated header cell. A
  string without the code unit \<^verbatim>\<open><\<close> never matches \<^verbatim>\<open>HEADER_REGEX\<close>. When the header cells
  to its left are all accepted, a string header cell that does not match
  \<^verbatim>\<open>HEADER_REGEX\<close>, unannotated or malformed, is rejected with the error
  \<^verbatim>\<open>Header does not properly defined\<close>. When validation succeeds, the table has a header
  row and every header cell is a string of the form: optional white space, a non-empty
  name without \<^verbatim>\<open><\<close>, at least one white space, \<^verbatim>\<open><\<close>, one of \<^verbatim>\<open>string\<close>, \<^verbatim>\<open>number\<close>,
  \<^verbatim>\<open>boolean\<close>, \<^verbatim>\<open>Date\<close>, \<^verbatim>\<open>>\<close>, optional white space; the name and the type that
  \<^verbatim>\<open>HEADER_REGEX\<close> captures in it are those of a column of the schema.
\<close>

theorem validateColumnTypes_requires_annotation:
  "(0x003C \<notin> set s \<longrightarrow> HEADER_REGEX_exec s = None)
   \<and> (validate_headers pre columnTypes = Inr () \<and> HEADER_REGEX_exec s = None \<longrightarrow>
        validateColumnTypes ((pre @ VStr s # post) # body) columnTypes =
          Inl (ThrownError (HeaderNotProperlyDefined s)))
   \<and> (validateColumnTypes sheetValues columnTypes = Inr () \<longrightarrow>
        (\<exists>headers rows. sheetValues = headers # rows \<and>
           (\<forall>c \<in> set headers. \<exists>s' n t.
              c = VStr s' \<and> HEADER_REGEX_exec s' = Some (n, t) \<and>
              (\<exists>ws0 ws1 ws2.
                 s' = ws0 @ n @ ws1 @ ascii ''<'' @ t @ ascii ''>'' @ ws2 \<and>
                 (\<forall>x \<in> set ws0. is_space x) \<and> n \<noteq> [] \<and> (\<forall>x \<in> set n. not_lt x) \<and>
                 ws1 \<noteq> [] \<and> (\<forall>x \<in> set ws1. is_space x) \<and>
                 t \<in> set (map ascii [''string'', ''number'', ''boolean'', ''Date'']) \<and>
                 (\<forall>x \<in> set ws2. is_space x)) \<and>
              (\<exists>ct \<in> set columnTypes. name ct = n \<and> type_name_str (ctype ct) = t))))"
proof (intro conjI impI)
  assume "0x003C \<notin> set s"
  then show "HEADER_REGEX_exec s = None" by (rule HEADER_REGEX_exec_unannotated)
next
  assume a: "validate_headers pre columnTypes = Inr () \<and> HEADER_REGEX_exec s = None"
  then have "validate_headers (pre @ VStr s # post) columnTypes =
      validate_headers (VStr s # post) columnTypes"
    by (simp add: validate_headers_append)
  with a show "validateColumnTypes ((pre @ VStr s # post) # body) columnTypes =
          Inl (ThrownError (HeaderNotProperlyDefined s))"
    by (simp add: validateColumnTypes_def validate_header_def)
next
  assume a: "validateColumnTypes sheetValues columnTypes = Inr ()"
  then obtain headers rows where hr: "sheetValues = headers # rows"
    by (cases sheetValues) (simp_all add: validateColumnTypes_def)
  with a have v: "validate_headers headers columnTypes = Inr ()"
    by (simp add: validateColumnTypes_def)
  have "\<forall>c \<in> set headers. \<exists>s' n t.
              c = VStr s' \<and> HEADER_REGEX_exec s' = Some (n, t) \<and>
              (\<exists>ws0 ws1 ws2.
                 s' = ws0 @ n @ ws1 @ ascii ''<'' @ t @ ascii ''>'' @ ws2 \<and>
                 (\<forall>x \<in> set ws0. is_space x) \<and> n \<noteq> [] \<and> (\<forall>x \<in> set n. not_lt x) \<and>
                 ws1 \<noteq> [] \<and> (\<forall>x \<in> set ws1. is_space x) \<and>
                 t \<in> set (map ascii [''string'', ''number'', ''boolean'', ''Date'']) \<and>
                 (\<forall>x \<in> set ws2. is_space x)) \<and>
              (\<exists>ct \<in> set columnTypes. name ct = n \<and> type_name_str (ctype ct) = t)"
  proof
    fix c assume "c \<in> set headers"
    from validate_header_Inr [OF validate_headers_Inr [OF v this]]
    obtain s' n t where p: "c = VStr s'" "HEADER_REGEX_exec s' = Some (n, t)"
        "\<exists>ct \<in> set columnTypes. name ct = n \<and> type_name_str (ctype ct) = t"
      by blast
    from HEADER_REGEX_exec_grammar [OF p(2)] p
    show "\<exists>s' n t.
              c = VStr s' \<and> HEADER_REGEX_exec s' = Some (n, t) \<and>
              (\<exists>ws0 ws1 ws2.
                 s' = ws0 @ n @ ws1 @ ascii ''<'' @ t @ ascii ''>'' @ ws2 \<and>
                 (\<forall>x \<in> set ws0. is_space x) \<and> n \<noteq> [] \<and> (\<forall>x \<in> set n. not_lt x) \<and>
                 ws1 \<noteq> [] \<and> (\<forall>x \<in> set ws1. is_space x) \<and>
                 t \<in> set (map ascii [''string'', ''number'', ''boolean'', ''Date'']) \<and>
                 (\<forall>x \<in> set ws2. is_space x)) \<and>
              (\<exists>ct \<in> set columnTypes. name ct = n \<and> type_name_str (ctype ct) = t)"
      by blast
  qed
  with hr show "\<exists>headers rows. sheetValues = headers # rows \<and>
           (\<forall>c \<in> set headers. \<exists>s' n t.
              c = VStr s' \<and> HEADER_REGEX_exec s' = Some (n, t) \<and>
              (\<exists>ws0 ws1 ws2.
                 s' = ws0 @ n @ ws1 @ ascii ''<'' @ t @ ascii ''>'' @ ws2 \<and>
                 (\<forall>x \<in> set ws0. is_space x) \<and> n \<noteq> [] \<and> (\<forall>x \<in> set n. not_lt x) \<and>
                 ws1 \<noteq> [] \<and> (\<forall>x \<in> set ws1. is_space x) \<and>
                 t \<in> set (map ascii [''string'', ''number'', ''boolean'', ''Date'']) \<and>
                 (\<forall>x \<in> set ws2. is_space x)) \<and>
              (\<exists>ct \<in> set columnTypes. name ct = n \<and> type_name_str (ctype ct) = t))"
    by blast
qed

lemma example_validate_first_header:
  "validate_headers [VStr (ascii ''Group ID <string>'')] GROUP_COLUMN_TYPES = Inr ()"
  by code_simp

theorem validateColumnTypes_requires_annotation_witness:
  "validateColumnTypes [[VStr (ascii ''Group ID <string>''), VStr (ascii ''Name''), VStr (ascii ''Ave. Grades <number>'')]]
     GROUP_COLUMN_TYPES = Inl (ThrownError (HeaderNotProperlyDefined (ascii ''Name'')))"
proof -
  note t = validateColumnTypes_requires_annotation [of "ascii ''Name''" "[VStr (ascii ''Group ID <string>'')]"
      GROUP_COLUMN_TYPES "[VStr (ascii ''Ave. Grades <number>'')]" "[]"]
  from t have n: "HEADER_REGEX_exec (ascii ''Name'') = None" by (simp add: ascii_def)
  from t n example_validate_first_header show ?thesis by simp
qed

text \<open>
  C8 as stated fails: the header cell \<^verbatim>\<open>Name\<close>, the raw name of a column the schema
  declares, is rejected.
\<close>

theorem validateColumnTypes_unannotated_counterexample:
  "validateColumnTypes [[VStr (ascii ''Name'')]] [\<lparr>name = ascii ''Name'', ctype = TString\<rparr>] =
     Inl (ThrownError (HeaderNotProperlyDefined (ascii ''Name'')))"
  by code_simp

section \<open>Properties of decoding\<close>

lemma reduce_columns_other:
  "n \<notin> name ` set cs \<Longrightarrow> reduce_columns cs i row acc n = acc n"
  by (induction cs arbitrary: i acc) auto

lemma reduce_columns_last:
  "k < length cs \<Longrightarrow>
   \<forall>k'. k < k' \<and> k' < length cs \<longrightarrow> name (cs ! k') \<noteq> name (cs ! k) \<Longrightarrow>
   reduce_columns cs i row acc (name (cs ! k)) = Some (cell row (i + k))"
proof (induction cs arbitrary: i acc k)
  case Nil
  then show ?case by simp
next
  case (Cons c cs)
  show ?case
  proof (cases k)
    case 0
    have "name c \<notin> name ` set cs"
    proof
      assume "name c \<in> name ` set cs"
      then obtain j where "j < length cs" "name (cs ! j) = name c"
        by (auto simp: in_set_conv_nth)
      with Cons.prems(2) [rule_format, of "Suc j"] 0 show False by simp
    qed
    with 0 show ?thesis by (simp add: reduce_columns_other)
  next
    case (Suc k0)
    have "\<forall>k'. k0 < k' \<and> k' < length cs \<longrightarrow> name (cs ! k') \<noteq> name (cs ! k0)"
    proof (intro allI impI)
      fix k' assume "k0 < k' \<and> k' < length cs"
      with Cons.prems(2) [rule_format, of "Suc k'"] Suc
      show "name (cs ! k') \<noteq> name (cs ! k0)" by simp
    qed
    with Cons.IH [of k0 "Suc i"] Cons.prems(1) Suc show ?thesis by simp
  qed
qed

lemma decode_position:
  "j < length vals \<Longrightarrow> k < length cts \<Longrightarrow>
   \<forall>k'. k < k' \<and> k' < length cts \<longrightarrow> name (cts ! k') \<noteq> name (cts ! k) \<Longrightarrow>
   (decode cts vals ! j) (name (cts ! k)) = Some (cell (vals ! j) k)"
  using reduce_columns_last [of k cts 0]
  by (simp add: decode_def)

lemma createSheetQuery_records:
  "find (\<lambda>s. sheet_id s = config_id config) sheets = Some sheet \<Longrightarrow>
   sheet_values sheet = headers # rows \<Longrightarrow>
   createSheetQuery config sheets = Inr q \<Longrightarrow>
   read q = decode (config_columnTypes config) rows"
  by (auto simp: createSheetQuery_def read_def Let_def split: sum.splits)

lemma distinct_map_nth_neq:
  assumes "distinct (map f xs)" and "k < k'" and "k' < length xs"
  shows "f (xs ! k') \<noteq> f (xs ! k)"
proof -
  from assms have "map f xs ! k' \<noteq> map f xs ! k"
    by (simp add: distinct_conv_nth)
  with assms show ?thesis by simp
qed

lemma spec_columnIndexMap_schema_order:
  assumes "distinct (map name cts)"
    and "map header_name headers = map name cts"
  shows "\<exists>m. spec_columnIndexMap headers cts = Inr m \<and>
           (\<forall>k < length cts. m (name (cts ! k)) = Some k)"
proof -
  let ?ct = "map_of (map (\<lambda>c. (name c, ctype c)) cts)"
  have "\<forall>h \<in> set (map name cts). has_property ?ct h"
  proof
    fix h assume "h \<in> set (map name cts)"
    then have "h \<in> fst ` set (map (\<lambda>c. (name c, ctype c)) cts)" by force
    then have "?ct h \<noteq> None" by (simp only: map_of_eq_None_iff not_not)
    then show "has_property ?ct h" by (simp add: has_property_def)
  qed
  then obtain m where m: "reduce_headers (map name cts) 0 ?ct Map.empty = Inr m"
    using reduce_headers_Inr_iff [of "map name cts" 0 ?ct Map.empty] by blast
  have "\<forall>k < length cts. m (name (cts ! k)) = Some k"
  proof (intro allI impI)
    fix k assume k: "k < length cts"
    have "\<forall>k'. k < k' \<and> k' < length (map name cts) \<longrightarrow> map name cts ! k' \<noteq> map name cts ! k"
      using assms(1) k by (auto dest: distinct_map_nth_neq)
    with reduce_headers_last [OF m, of k] k show "m (name (cts ! k)) = Some k" by simp
  qed
  with m assms(2) show ?thesis
    by (simp add: spec_columnIndexMap_def getColumnIndices_def)
qed

text \<open>
  C9, as amended. Decoding does not consult the header row. For every sheet that
  \<^verbatim>\<open>createSheetQuery\<close> opens, the working set has one record per body row, and for every
  body row and every schema column (the last one of its name) the record's value under
  the column's name is the row's cell at the column's index in the schema, unchanged,
  \<^verbatim>\<open>undefined\<close> when the row is shorter. When the names of the header cells are the
  schema's column names, distinct and in the schema's order, the column index map of the
  header row assigns that index to the name, and the record's value is the cell at the
  position the map assigns.
\<close>

theorem decode_reads_schema_position:
  "(find (\<lambda>s. sheet_id s = config_id config) sheets = Some sheet
      \<and> sheet_values sheet = headers # rows
      \<and> createSheetQuery config sheets = Inr q \<longrightarrow>
      length (read q) = length rows
      \<and> (\<forall>j < length rows. \<forall>k < length (config_columnTypes config).
           (\<forall>k'. k < k' \<and> k' < length (config_columnTypes config) \<longrightarrow>
              name (config_columnTypes config ! k') \<noteq> name (config_columnTypes config ! k)) \<longrightarrow>
           (read q ! j) (name (config_columnTypes config ! k)) = Some (cell (rows ! j) k)))
   \<and> (find (\<lambda>s. sheet_id s = config_id config) sheets = Some sheet
      \<and> sheet_values sheet = headers # rows
      \<and> createSheetQuery config sheets = Inr q
      \<and> distinct (map name (config_columnTypes config))
      \<and> map header_name headers = map name (config_columnTypes config) \<longrightarrow>
      (\<exists>m. spec_columnIndexMap headers (config_columnTypes config) = Inr m
         \<and> (\<forall>j < length rows. \<forall>k < length (config_columnTypes config).
              \<exists>p. m (name (config_columnTypes config ! k)) = Some p
                \<and> (read q ! j) (name (config_columnTypes config ! k)) = Some (cell (rows ! j) p))))"
proof (intro conjI impI)
  assume a: "find (\<lambda>s. sheet_id s = config_id config) sheets = Some sheet
      \<and> sheet_values sheet = headers # rows
      \<and> createSheetQuery config sheets = Inr q"
  then have r: "read q = decode (config_columnTypes config) rows"
    using createSheetQuery_records by blast
  show "length (read q) = length rows"
    by (simp add: r decode_def)
  show "\<forall>j < length rows. \<forall>k < length (config_columnTypes config).
           (\<forall>k'. k < k' \<and> k' < length (config_columnTypes config) \<longrightarrow>
              name (config_columnTypes config ! k') \<noteq> name (config_columnTypes config ! k)) \<longrightarrow>
           (read q ! j) (name (config_columnTypes config ! k)) = Some (cell (rows ! j) k)"
    by (simp add: r decode_position)
next
  assume a: "find (\<lambda>s. sheet_id s = config_id config) sheets = Some sheet
      \<and> sheet_values sheet = headers # rows
      \<and> createSheetQuery config sheets = Inr q
      \<and> distinct (map name (config_columnTypes config))
      \<and> map header_name headers = map name (config_columnTypes config)"
  then have r: "read q = decode (config_columnTypes config) rows"
    using createSheetQuery_records by blast
  from a spec_columnIndexMap_schema_order [of "config_columnTypes config" headers]
  obtain m where m: "spec_columnIndexMap headers (config_columnTypes config) = Inr m"
      "\<forall>k < length (config_columnTypes config). m (name (config_columnTypes config ! k)) = Some k"
    by blast
  have "\<forall>j < length rows. \<forall>k < length (config_columnTypes config).
              \<exists>p. m (name (config_columnTypes config ! k)) = Some p
                \<and> (read q ! j) (name (config_columnTypes config ! k)) = Some (cell (rows ! j) p)"
  proof (intro allI impI)
    fix j k assume j: "j < length rows" and k: "k < length (config_columnTypes config)"
    have "\<forall>k'. k < k' \<and> k' < length (config_columnTypes config) \<longrightarrow>
        name (config_columnTypes config ! k') \<noteq> name (config_columnTypes config ! k)"
    proof (intro allI impI)
      fix k' assume k': "k < k' \<and> k' < length (config_columnTypes config)"
      from a have "distinct (map name (config_columnTypes config))" by simp
      with k' show "name (config_columnTypes config ! k') \<noteq> name (config_columnTypes config ! k)"
        by (simp add: distinct_map_nth_neq)
    qed
    with decode_position [OF j k] r m(2) k
    show "\<exists>p. m (name (config_columnTypes config ! k)) = Some p
                \<and> (read q ! j) (name (config_columnTypes config ! k)) = Some (cell (rows ! j) p)"
      by simp
  qed
  with m(1) show "\<exists>m. spec_columnIndexMap headers (config_columnTypes config) = Inr m
         \<and> (\<forall>j < length rows. \<forall>k < length (config_columnTypes config).
              \<exists>p. m (name (config_columnTypes config ! k)) = Some p
                \<and> (read q ! j) (name (config_columnTypes config ! k)) = Some (cell (rows ! j) p))"
    by blast
qed

lemma swapped_validate: "validateColumnTypes swapped_group_table GROUP_COLUMN_TYPES = Inr ()"
  by code_simp

lemma swapped_created:
  "createSheetQuery groupQueryConfig swapped_sheets = Inr swapped_group_query"
  by (simp add: createSheetQuery_def groupQueryConfig_def swapped_sheets_def GROUP_SHEET_ID_def
      swapped_validate swapped_group_query_def)

lemma swapped_header_names:
  "map header_name (hd swapped_group_table) = [ascii ''Name'', ascii ''Group ID'', ascii ''Ave. Grades'']"
  by code_simp

lemma group_header_names: "map header_name (hd group_table) = map name GROUP_COLUMN_TYPES"
  by code_simp

lemma swapped_read:
  "read swapped_group_query =
     [[ascii ''Group ID'' \<mapsto> VStr (ascii ''aaa''), ascii ''Name'' \<mapsto> VStr (ascii ''0123''),
       ascii ''Ave. Grades'' \<mapsto> VNum 1]]"
  by (simp add: read_def swapped_group_query_def decode_def swapped_group_table_def
      GROUP_COLUMN_TYPES_def cell_def)

theorem decode_reads_schema_position_witness:
  "(read swapped_group_query ! 0) (ascii ''Name'') = Some (VStr (ascii ''0123''))
   \<and> (\<exists>m. spec_columnIndexMap (hd group_table) GROUP_COLUMN_TYPES = Inr m
        \<and> (\<exists>p. m (ascii ''Name'') = Some p
             \<and> (read example_group_query ! 0) (ascii ''Name'') = Some (cell (group_table ! 1) p)))"
proof
  have len: "length GROUP_COLUMN_TYPES = 3"
    by (simp add: GROUP_COLUMN_TYPES_def)
  have f: "find (\<lambda>s. sheet_id s = config_id groupQueryConfig) swapped_sheets =
      Some \<lparr>sheet_id = 2000, sheet_values = swapped_group_table\<rparr>"
    by (simp add: swapped_sheets_def groupQueryConfig_def GROUP_SHEET_ID_def)
  have v: "sheet_values \<lparr>sheet_id = 2000, sheet_values = swapped_group_table\<rparr> =
      hd swapped_group_table # tl swapped_group_table"
    by (simp add: swapped_group_table_def)
  have last: "\<forall>k'. 1 < k' \<and> k' < length (config_columnTypes groupQueryConfig) \<longrightarrow>
      name (config_columnTypes groupQueryConfig ! k') \<noteq> name (config_columnTypes groupQueryConfig ! 1)"
  proof (intro allI impI)
    fix k' assume "1 < k' \<and> k' < length (config_columnTypes groupQueryConfig)"
    with len have "k' = 2" by (simp add: groupQueryConfig_def)
    then show "name (config_columnTypes groupQueryConfig ! k') \<noteq>
        name (config_columnTypes groupQueryConfig ! 1)"
      by (simp add: groupQueryConfig_def GROUP_COLUMN_TYPES_def)
  qed
  have j: "0 < length (tl swapped_group_table)"
    by (simp add: swapped_group_table_def)
  have k: "1 < length (config_columnTypes groupQueryConfig)"
    by (simp add: groupQueryConfig_def len)
  have "(read swapped_group_query ! 0) (name (config_columnTypes groupQueryConfig ! 1)) =
      Some (cell (tl swapped_group_table ! 0) 1)"
    using decode_reads_schema_position [of groupQueryConfig swapped_sheets
        "\<lparr>sheet_id = 2000, sheet_values = swapped_group_table\<rparr>" "hd swapped_group_table"
        "tl swapped_group_table" swapped_group_query]
      f v swapped_created j k last
    by blast
  then show "(read swapped_group_query ! 0) (ascii ''Name'') = Some (VStr (ascii ''0123''))"
    by (simp add: groupQueryConfig_def GROUP_COLUMN_TYPES_def swapped_group_table_def cell_def)
next
  have len: "length GROUP_COLUMN_TYPES = 3"
    by (simp add: GROUP_COLUMN_TYPES_def)
  have f: "find (\<lambda>s. sheet_id s = config_id groupQueryConfig) example_sheets =
      Some \<lparr>sheet_id = 2000, sheet_values = group_table\<rparr>"
    by (simp add: example_sheets_def groupQueryConfig_def GROUP_SHEET_ID_def)
  have v: "sheet_values \<lparr>sheet_id = 2000, sheet_values = group_table\<rparr> =
      hd group_table # tl group_table"
    by (simp add: group_table_def)
  have c: "createSheetQuery groupQueryConfig example_sheets = Inr example_group_query"
    by (simp add: createSheetQuery_def groupQueryConfig_def example_sheets_def
        GROUP_SHEET_ID_def example_validate_group example_group_query_def)
  have d: "distinct (map name (config_columnTypes groupQueryConfig))"
    by (simp add: groupQueryConfig_def GROUP_COLUMN_TYPES_def)
  have h: "map header_name (hd group_table) = map name (config_columnTypes groupQueryConfig)"
    by (simp add: groupQueryConfig_def group_header_names)
  from decode_reads_schema_position [of groupQueryConfig example_sheets
        "\<lparr>sheet_id = 2000, sheet_values = group_table\<rparr>" "hd group_table"
        "tl group_table" example_group_query] f v c d h
  obtain m where m: "spec_columnIndexMap (hd group_table) (config_columnTypes groupQueryConfig) = Inr m"
      "\<forall>j < length (tl group_table). \<forall>k < length (config_columnTypes groupQueryConfig).
          \<exists>p. m (name (config_columnTypes groupQueryConfig ! k)) = Some p
            \<and> (read example_group_query ! j) (name (config_columnTypes groupQueryConfig ! k)) =
                Some (cell (tl group_table ! j) p)"
    by blast
  have j: "0 < length (tl group_table)"
    by (simp add: group_table_def)
  have k: "1 < length (config_columnTypes groupQueryConfig)"
    by (simp add: groupQueryConfig_def len)
  from m(2) j k obtain p where
    "m (name (config_columnTypes groupQueryConfig ! 1)) = Some p
      \<and> (read example_group_query ! 0) (name (config_columnTypes groupQueryConfig ! 1)) =
          Some (cell (tl group_table ! 0) p)"
    by blast
  then have "m (ascii ''Name'') = Some p
      \<and> (read example_group_query ! 0) (ascii ''Name'') = Some (cell (group_table ! 1) p)"
    by (simp add: groupQueryConfig_def GROUP_COLUMN_TYPES_def group_table_def)
  with m(1) show "\<exists>m. spec_columnIndexMap (hd group_table) GROUP_COLUMN_TYPES = Inr m
        \<and> (\<exists>p. m (ascii ''Name'') = Some p
             \<and> (read example_group_query ! 0) (ascii ''Name'') = Some (cell (group_table ! 1) p))"
    by (auto simp: groupQueryConfig_def)
qed

text \<open>
  C9 as stated fails. For a sheet whose header row lists the columns in another order
  than the schema, validation succeeds and the session is opened, the column index map of
  the header row sends \<^verbatim>\<open>Name\<close> to position 0, and the decoded record's value under
  \<^verbatim>\<open>Name\<close> is not the cell at position 0.
\<close>

theorem decode_ignores_header_position_counterexample:
  "createSheetQuery groupQueryConfig swapped_sheets = Inr swapped_group_query
   \<and> spec_columnIndexMap (hd swapped_group_table) GROUP_COLUMN_TYPES =
       Inr [ascii ''Name'' \<mapsto> 0, ascii ''Group ID'' \<mapsto> 1, ascii ''Ave. Grades'' \<mapsto> 2]
   \<and> cell (swapped_group_table ! 1) 0 = VStr (ascii ''aaa'')
   \<and> (read swapped_group_query ! 0) (ascii ''Name'') = Some (VStr (ascii ''0123''))
   \<and> (read swapped_group_query ! 0) (ascii ''Name'') \<noteq> Some (cell (swapped_group_table ! 1) 0)"
proof (intro conjI)
  show "createSheetQuery groupQueryConfig swapped_sheets = Inr swapped_group_query"
    by (rule swapped_created)
  show "spec_columnIndexMap (hd swapped_group_table) GROUP_COLUMN_TYPES =
       Inr [ascii ''Name'' \<mapsto> 0, ascii ''Group ID'' \<mapsto> 1, ascii ''Ave. Grades'' \<mapsto> 2]"
    by (simp add: spec_columnIndexMap_def swapped_header_names getColumnIndices_def
        GROUP_COLUMN_TYPES_def has_property_def numeral_2_eq_2)
  show "cell (swapped_group_table ! 1) 0 = VStr (ascii ''aaa'')"
    by (simp add: swapped_group_table_def cell_def)
  show "(read swapped_group_query ! 0) (ascii ''Name'') = Some (VStr (ascii ''0123''))"
    by (simp add: swapped_read)
  show "(read swapped_group_query ! 0) (ascii ''Name'') \<noteq> Some (cell (swapped_group_table ! 1) 0)"
    by (simp add: swapped_read swapped_group_table_def cell_def)
qed

text \<open>
  The inline decoding of the draft, on the first body row of the group sheet: the keys of
  the record are the type names, and no column name has a value.
\<close>

lemma inline_decode_example:
  "inline_decode [(ascii ''Group ID'', TString), (ascii ''Name'', TString), (ascii ''Ave. Grades'', TNumber)]
     [ascii ''Group ID'' \<mapsto> 0, ascii ''Name'' \<mapsto> 1, ascii ''Ave. Grades'' \<mapsto> 2]
     [[VStr (ascii ''0123''), VStr (ascii ''aaa''), VNum 1]] =
   [[ascii ''string'' \<mapsto> VUndefined, ascii ''number'' \<mapsto> VUndefined]]"
  by (simp add: inline_decode_def cell_at_def)

end
